theory Spec2Isabelle
  imports Complex_Main
begin

section \<open>Python values and the operations the worker applies to them\<close>

text \<open>
  The worker handles documents decoded by \<^verbatim>\<open>json.loads\<close>: \<^verbatim>\<open>None\<close>, booleans,
  integers, floats, strings, lists and dictionaries with string keys. A dictionary is an
  association list read with \<open>map_of\<close>. A float is embedded as the real number it
  denotes; only comparisons with constants and one division are made on floats. A
  \<open>string\<close> is the sequence of characters of a Python \<^verbatim>\<open>str\<close>, for the characters
  with a code point below 256.
\<close>

datatype json =
    JNull
  | JBool bool
  | JInt int
  | JFloat real
  | JStr string
  | JArr "json list"
  | JObj "(string \<times> json) list"

text \<open>The exception classes that the modelled code can raise.\<close>

datatype py_error =
    JSONDecodeError
  | KeyError
  | TypeError
  | AttributeError
  | ValidationError
  | ParamValidationError
  | ClientError
  | ModelError

text \<open>Truth value of an object, as tested by \<^verbatim>\<open>if x\<close>, \<^verbatim>\<open>not x\<close>, \<^verbatim>\<open>x and y\<close>, \<^verbatim>\<open>x or y\<close>.\<close>

fun truthy :: "json \<Rightarrow> bool" where
  "truthy JNull = False"
| "truthy (JBool b) = b"
| "truthy (JInt i) = (i \<noteq> 0)"
| "truthy (JFloat x) = (x \<noteq> 0)"
| "truthy (JStr s) = (s \<noteq> [])"
| "truthy (JArr xs) = (xs \<noteq> [])"
| "truthy (JObj kvs) = (kvs \<noteq> [])"

text \<open>\<^verbatim>\<open>k in s\<close> for two strings: \<open>k\<close> occurs in \<open>s\<close> as a contiguous block.\<close>

fun is_substring :: "string \<Rightarrow> string \<Rightarrow> bool" where
  "is_substring k [] = (k = [])"
| "is_substring k (c # cs) = (take (length k) (c # cs) = k \<or> is_substring k cs)"

text \<open>\<^verbatim>\<open>k in v\<close> for a string \<open>k\<close>: key membership in a dictionary, element membership in
  a list, substring test in a string, \<^verbatim>\<open>TypeError\<close> on the other values.\<close>

fun py_contains :: "string \<Rightarrow> json \<Rightarrow> py_error + bool" where
  "py_contains k (JObj kvs) = Inr (map_of kvs k \<noteq> None)"
| "py_contains k (JArr xs) = Inr (JStr k \<in> set xs)"
| "py_contains k (JStr s) = Inr (is_substring k s)"
| "py_contains k v = Inl TypeError"

text \<open>\<^verbatim>\<open>v[k]\<close> for a string \<open>k\<close>: only a dictionary can be subscripted by a string.\<close>

fun py_getitem :: "json \<Rightarrow> string \<Rightarrow> py_error + json" where
  "py_getitem (JObj kvs) k = (case map_of kvs k of None \<Rightarrow> Inl KeyError | Some v \<Rightarrow> Inr v)"
| "py_getitem v k = Inl TypeError"

text \<open>\<^verbatim>\<open>v.get(k, default)\<close>: only a dictionary has the method.\<close>

fun py_get :: "json \<Rightarrow> string \<Rightarrow> json \<Rightarrow> py_error + json" where
  "py_get (JObj kvs) k d = (case map_of kvs k of None \<Rightarrow> Inr d | Some v \<Rightarrow> Inr v)"
| "py_get v k d = Inl AttributeError"

text \<open>\<^verbatim>\<open>for x in v\<close>: the elements of a list, the keys of a dictionary, the characters of
  a string; the other values are not iterable.\<close>

fun py_iter :: "json \<Rightarrow> py_error + json list" where
  "py_iter (JArr xs) = Inr xs"
| "py_iter (JObj kvs) = Inr (map (\<lambda>kv. JStr (fst kv)) kvs)"
| "py_iter (JStr s) = Inr (map (\<lambda>c. JStr [c]) s)"
| "py_iter v = Inl TypeError"

text \<open>\<^verbatim>\<open>str.isspace\<close> on one character, and \<^verbatim>\<open>str.strip()\<close>, \<^verbatim>\<open>str.split()\<close>,
  \<^verbatim>\<open>" ".join\<close>.\<close>

definition isspace :: "char \<Rightarrow> bool" where
  "isspace c = (of_char c \<in> {9, 10, 11, 12, 13, 28, 29, 30, 31, 32, 133, 160 :: nat})"

definition strip :: "string \<Rightarrow> string" where
  "strip s = rev (dropWhile isspace (rev (dropWhile isspace s)))"

fun split_acc :: "string \<Rightarrow> string \<Rightarrow> string list" where
  "split_acc cur [] = (if cur = [] then [] else [rev cur])"
| "split_acc cur (c # cs) =
     (if isspace c then (if cur = [] then split_acc [] cs else rev cur # split_acc [] cs)
      else split_acc (c # cur) cs)"

definition split :: "string \<Rightarrow> string list" where
  "split s = split_acc [] s"

fun join_space :: "string list \<Rightarrow> string" where
  "join_space [] = []"
| "join_space [w] = w"
| "join_space (w # ws) = w @ '' '' @ join_space ws"

section \<open>Schemas (src/common/schemas.py)\<close>

record ticket_metadata =
  source :: string
  language :: string
  tags :: "string list"

record raw_ticket =
  ticket_id :: string
  subject :: string
  body :: string
  priority :: "string option"
  created_at :: int
  customer_id :: string
  metadata :: ticket_metadata

record enrichment_data =
  embedding :: "real list"
  intent :: string
  intent_confidence :: real
  urgency :: string
  urgency_confidence :: real
  sentiment :: string
  sentiment_confidence :: real
  summary :: string
  processed_at :: string
  model_version :: string

text \<open>\<^verbatim>\<open>EnrichedTicket\<close> repeats the fields of \<^verbatim>\<open>RawTicket\<close> and adds \<^verbatim>\<open>enrichment\<close>.\<close>

record enriched_ticket = raw_ticket +
  enrichment :: enrichment_data

text \<open>\<^verbatim>\<open>DynamoDBTicket\<close>. Its fields carry the prefix \<open>item_\<close>, the names without it being
  those of the records above.\<close>

record dynamodb_ticket =
  item_ticket_id :: string
  item_created_at :: int
  item_subject :: string
  item_customer_id :: string
  item_intent :: string
  item_urgency :: string
  item_sentiment :: string
  item_summary :: string
  item_processed_at :: string
  item_s3_key :: string

text \<open>
  The libraries and the clock, which are not part of the repository, are parameters:
  \<^item> \<open>json_loads\<close>: \<^verbatim>\<open>json.loads\<close>, \<open>None\<close> when it raises;
  \<^item> \<open>int_of_str\<close>: the integer that the validation of a pydantic field of type
    \<^verbatim>\<open>int\<close> reads from a string, \<open>None\<close> when it reads none;
  \<^item> \<open>py_str\<close>: the text an f-string gives for a value that is not a string;
  \<^item> \<open>str_lower\<close>, \<open>str_upper\<close>: \<^verbatim>\<open>str.lower\<close>, \<^verbatim>\<open>str.upper\<close>;
  \<^item> \<open>re_search kw text\<close>: \<^verbatim>\<open>re.search(r'\b' + re.escape(kw) + r'\b', text)\<close> finds a
    match; \<open>re_count kw text\<close>: the length of \<^verbatim>\<open>re.findall\<close> for the same pattern;
  \<^item> \<open>load_embedding_model\<close>, \<open>load_classifier_pipeline\<close>: the cached model loaders of
    src/processor/models.py, an error when loading raises, else the model as a function
    of the text;
  \<^item> \<open>generate_summary\<close>: the summarizer of src/processor/summarizer.py, applied to the
    ticket dictionary;
  \<^item> \<open>utcnow_isoformat\<close>: \<^verbatim>\<open>datetime.utcnow().isoformat()\<close>;
  \<^item> \<open>model_dump_json\<close>: the JSON text of an enriched ticket.
\<close>

record lib =
  json_loads :: "string \<Rightarrow> json option"
  int_of_str :: "string \<Rightarrow> int option"
  py_str :: "json \<Rightarrow> string"
  str_lower :: "string \<Rightarrow> string"
  str_upper :: "string \<Rightarrow> string"
  re_search :: "string \<Rightarrow> string \<Rightarrow> bool"
  re_count :: "string \<Rightarrow> string \<Rightarrow> nat"
  load_embedding_model :: "py_error + (string \<Rightarrow> py_error + real list)"
  load_classifier_pipeline :: "py_error + (string \<Rightarrow> py_error + string \<times> real)"
  generate_summary :: "json \<Rightarrow> py_error + string"
  utcnow_isoformat :: string
  model_dump_json :: "enriched_ticket \<Rightarrow> string"

text \<open>Validation of one field of type \<^verbatim>\<open>str\<close>: a string is accepted, nothing else is.\<close>

fun str_field :: "json \<Rightarrow> string option" where
  "str_field (JStr s) = Some s"
| "str_field v = None"

text \<open>Validation of one field of type \<^verbatim>\<open>int\<close>. The constructor is called with Python
  values and validates in the lax mode of the library: an integer is accepted, a boolean
  is converted to 0 or 1, a float is converted when it has no fractional part, a string
  when the library reads an integer from it; \<^verbatim>\<open>None\<close>, a list and a dictionary are
  rejected.\<close>

fun int_field :: "lib \<Rightarrow> json \<Rightarrow> int option" where
  "int_field L (JInt i) = Some i"
| "int_field L (JBool b) = Some (if b then 1 else 0)"
| "int_field L (JFloat x) = (if x = of_int \<lfloor>x\<rfloor> then Some \<lfloor>x\<rfloor> else None)"
| "int_field L (JStr s) = int_of_str L s"
| "int_field L v = None"

text \<open>A required field \<^verbatim>\<open>Field(...)\<close>: absent or rejected is a validation error.\<close>

definition required :: "(json \<Rightarrow> 'a option) \<Rightarrow> (string \<times> json) list \<Rightarrow> string \<Rightarrow> 'a option" where
  "required check kvs k = (case map_of kvs k of None \<Rightarrow> None | Some v \<Rightarrow> check v)"

text \<open>A field with a default: absent gives the default, present is validated.\<close>

definition with_default :: "(json \<Rightarrow> 'a option) \<Rightarrow> 'a \<Rightarrow> (string \<times> json) list \<Rightarrow> string \<Rightarrow> 'a option" where
  "with_default check d kvs k = (case map_of kvs k of None \<Rightarrow> Some d | Some v \<Rightarrow> check v)"

fun str_list_field :: "json \<Rightarrow> string list option" where
  "str_list_field (JArr xs) =
     (if list_all (\<lambda>x. str_field x \<noteq> None) xs then Some (map (\<lambda>x. the (str_field x)) xs) else None)"
| "str_list_field v = None"

fun optional_str_field :: "json \<Rightarrow> string option option" where
  "optional_str_field JNull = Some None"
| "optional_str_field (JStr s) = Some (Some s)"
| "optional_str_field v = None"

fun TicketMetadata :: "json \<Rightarrow> ticket_metadata option" where
  "TicketMetadata (JObj kvs) =
     (case (required str_field kvs ''source'',
            with_default str_field ''en'' kvs ''language'',
            with_default str_list_field [] kvs ''tags'') of
        (Some s, Some l, Some t) \<Rightarrow> Some \<lparr>source = s, language = l, tags = t\<rparr>
      | _ \<Rightarrow> None)"
| "TicketMetadata v = None"

text \<open>\<^verbatim>\<open>RawTicket(**raw_ticket)\<close>: every field is validated and one \<^verbatim>\<open>ValidationError\<close>
  reports all failures; fields that the schema does not name are ignored.\<close>

definition RawTicket :: "lib \<Rightarrow> (string \<times> json) list \<Rightarrow> py_error + raw_ticket" where
  "RawTicket L kvs =
     (case (required str_field kvs ''ticket_id'',
            required str_field kvs ''subject'',
            required str_field kvs ''body'',
            with_default optional_str_field None kvs ''priority'',
            required (int_field L) kvs ''created_at'',
            required str_field kvs ''customer_id'',
            with_default TicketMetadata \<lparr>source = ''unknown'', language = ''en'', tags = []\<rparr>
              kvs ''metadata'') of
        (Some i, Some s, Some b, Some p, Some c, Some cu, Some m) \<Rightarrow>
          Inr \<lparr>ticket_id = i, subject = s, body = b, priority = p, created_at = c,
               customer_id = cu, metadata = m\<rparr>
      | _ \<Rightarrow> Inl ValidationError)"

text \<open>\<^verbatim>\<open>EnrichmentData(...)\<close>: the three confidences carry \<^verbatim>\<open>ge=0.0, le=1.0\<close>; the
  other arguments have the declared type when the constructor is called.\<close>

definition EnrichmentData ::
  "real list \<Rightarrow> string \<Rightarrow> real \<Rightarrow> string \<Rightarrow> real \<Rightarrow> string \<Rightarrow> real \<Rightarrow> string \<Rightarrow> string \<Rightarrow> string
     \<Rightarrow> py_error + enrichment_data" where
  "EnrichmentData emb i ic u uc s sc sm pa mv =
     (if 0 \<le> ic \<and> ic \<le> 1 \<and> 0 \<le> uc \<and> uc \<le> 1 \<and> 0 \<le> sc \<and> sc \<le> 1
      then Inr \<lparr>embedding = emb, intent = i, intent_confidence = ic, urgency = u,
                urgency_confidence = uc, sentiment = s, sentiment_confidence = sc,
                summary = sm, processed_at = pa, model_version = mv\<rparr>
      else Inl ValidationError)"

definition from_raw :: "raw_ticket \<Rightarrow> enrichment_data \<Rightarrow> enriched_ticket" where
  "from_raw raw enr =
     \<lparr>ticket_id = ticket_id raw, subject = subject raw, body = body raw,
      priority = priority raw, created_at = created_at raw,
      customer_id = customer_id raw, metadata = metadata raw, enrichment = enr\<rparr>"

definition from_enriched :: "enriched_ticket \<Rightarrow> dynamodb_ticket" where
  "from_enriched enriched =
     \<lparr>item_ticket_id = ticket_id enriched,
      item_created_at = created_at enriched,
      item_subject = subject enriched,
      item_customer_id = customer_id enriched,
      item_intent = intent (enrichment enriched),
      item_urgency = urgency (enrichment enriched),
      item_sentiment = sentiment (enrichment enriched),
      item_summary = summary (enrichment enriched),
      item_processed_at = processed_at (enrichment enriched),
      item_s3_key = ticket_id enriched @ ''.json''\<rparr>"

section \<open>Embeddings (src/processor/embeddings.py)\<close>

text \<open>An f-string field: a string is inserted as it is.\<close>

fun fmt :: "lib \<Rightarrow> json \<Rightarrow> string" where
  "fmt L (JStr s) = s"
| "fmt L v = py_str L v"

text \<open>\<^verbatim>\<open>f"{subject}. {body}" if subject and body else subject or body\<close>.\<close>

definition combined_text :: "lib \<Rightarrow> json \<Rightarrow> json \<Rightarrow> json" where
  "combined_text L subj bod =
     (if truthy subj \<and> truthy bod then JStr (fmt L subj @ ''. '' @ fmt L bod)
      else if truthy subj then subj else bod)"

definition generate_ticket_embedding :: "lib \<Rightarrow> json \<Rightarrow> py_error + real list" where
  "generate_ticket_embedding L ticket =
     (case load_embedding_model L of Inl e \<Rightarrow> Inl e | Inr model \<Rightarrow>
      (case py_get ticket ''subject'' (JStr []) of Inl e \<Rightarrow> Inl e | Inr subj \<Rightarrow>
       (case py_get ticket ''body'' (JStr []) of Inl e \<Rightarrow> Inl e | Inr bod \<Rightarrow>
        (case combined_text L subj bod of
           JStr text \<Rightarrow> if strip text = [] then Inr (replicate 384 0) else model text
         | _ \<Rightarrow> Inl AttributeError))))"

section \<open>Classification (src/processor/classifier.py)\<close>

definition INTENT_KEYWORDS :: "(string \<times> string list) list" where
  "INTENT_KEYWORDS =
    [(''login_issue'',
        [''login'', ''log in'', ''sign in'', ''signin'', ''password'', ''credentials'',
         ''authentication'', ''auth'', ''access denied'', ''locked out'', ''2fa'', ''mfa'']),
     (''payment_issue'',
        [''payment'', ''charge'', ''charged'', ''refund'', ''billing'', ''invoice'',
         ''transaction'', ''credit card'', ''debit'', ''declined'', ''failed payment'']),
     (''bug_report'',
        [''bug'', ''error'', ''crash'', ''broken'', ''not working'', ''doesn'' @ [CHR 0x27] @ ''t work'',
         ''issue'', ''problem'', ''glitch'', ''freeze'', ''hang'', ''exception'']),
     (''feature_request'',
        [''feature'', ''request'', ''enhancement'', ''add'', ''support for'', ''would love'',
         ''suggestion'', ''improve'', ''could you add'', ''wish'']),
     (''account_management'',
        [''account'', ''profile'', ''settings'', ''update'', ''change'', ''delete'',
         ''deactivate'', ''email address'', ''phone number'', ''password reset'']),
     (''performance_issue'',
        [''slow'', ''performance'', ''loading'', ''timeout'', ''lag'', ''delay'',
         ''hanging'', ''speed'', ''takes too long'']),
     (''security_concern'',
        [''security'', ''hack'', ''hacked'', ''unauthorized'', ''breach'', ''suspicious'',
         ''fraud'', ''scam'', ''phishing'', ''malware'', ''virus'']),
     (''data_request'',
        [''data'', ''export'', ''download'', ''gdpr'', ''privacy'', ''information'',
         ''personal data'', ''data protection'']),
     (''integration_help'',
        [''integration'', ''api'', ''webhook'', ''oauth'', ''sdk'', ''plugin'',
         ''third party'', ''connect'', ''sync''])]"

definition URGENCY_KEYWORDS :: "(string \<times> string list) list" where
  "URGENCY_KEYWORDS =
    [(''critical'',
        [''urgent'', ''critical'', ''emergency'', ''asap'', ''immediately'', ''right now'',
         ''down'', ''outage'', ''broken'', ''can'' @ [CHR 0x27] @ ''t access'', ''unable to'', ''blocked'',
         ''losing money'', ''production'', ''hacked'', ''security breach'']),
     (''high'',
        [''important'', ''need help'', ''problem'', ''issue'', ''can'' @ [CHR 0x27] @ ''t'', ''cannot'',
         ''doesn'' @ [CHR 0x27] @ ''t work'', ''not working'', ''error'', ''failing'', ''soon'',
         ''business impact'']),
     (''medium'',
        [''question'', ''how to'', ''how do i'', ''help'', ''assistance'',
         ''wondering'', ''clarify'', ''explain'']),
     (''low'',
        [''suggestion'', ''feature'', ''enhancement'', ''when possible'',
         ''sometime'', ''eventually'', ''minor'', ''nice to have''])]"

text \<open>\<^verbatim>\<open>f"{subject} {body}".lower()\<close>.\<close>

definition lowered_text :: "lib \<Rightarrow> json \<Rightarrow> json \<Rightarrow> string" where
  "lowered_text L subj bod = str_lower L (fmt L subj @ '' '' @ fmt L bod)"

text \<open>\<^verbatim>\<open>max(intent_scores, key=intent_scores.get)\<close>: the first entry, in the order of the
  dictionary, whose score no other entry exceeds.\<close>

fun max_by_score :: "string \<times> nat \<Rightarrow> (string \<times> nat) list \<Rightarrow> string \<times> nat" where
  "max_by_score best [] = best"
| "max_by_score best (x # xs) = max_by_score (if snd best < snd x then x else best) xs"

definition intent_scores :: "lib \<Rightarrow> string \<Rightarrow> (string \<times> nat) list" where
  "intent_scores L text =
     filter (\<lambda>p. 0 < snd p)
       (map (\<lambda>p. (fst p, sum_list (map (\<lambda>kw. re_count L kw text) (snd p)))) INTENT_KEYWORDS)"

definition classify_intent :: "lib \<Rightarrow> json \<Rightarrow> py_error + string \<times> real" where
  "classify_intent L ticket =
     (case py_get ticket ''subject'' (JStr []) of Inl e \<Rightarrow> Inl e | Inr subj \<Rightarrow>
      (case py_get ticket ''body'' (JStr []) of Inl e \<Rightarrow> Inl e | Inr bod \<Rightarrow>
        (let text = lowered_text L subj bod in
         if strip text = [] then Inr (''general_inquiry'', 0)
         else (case intent_scores L text of
                 [] \<Rightarrow> Inr (''general_inquiry'', 1 / 2)
               | x # xs \<Rightarrow>
                   (let best = max_by_score x xs
                    in Inr (fst best, min (real (snd best) / 3) 1))))))"

definition urgency_levels :: "string list" where
  "urgency_levels = [''critical'', ''high'', ''medium'', ''low'']"

definition urgency_level_confidence :: "(string \<times> real) list" where
  "urgency_level_confidence =
     [(''critical'', 9 / 10), (''high'', 8 / 10), (''medium'', 7 / 10), (''low'', 7 / 10)]"

text \<open>The two nested loops of \<open>classify_urgency\<close>: the first level, from the highest, one
  of whose keywords is found; \<^verbatim>\<open>("medium", 0.6)\<close> when none is.\<close>

fun urgency_scan :: "lib \<Rightarrow> string \<Rightarrow> string list \<Rightarrow> py_error + string \<times> real" where
  "urgency_scan L text [] = Inr (''medium'', 6 / 10)"
| "urgency_scan L text (level # rest) =
     (case map_of URGENCY_KEYWORDS level of
        None \<Rightarrow> Inl KeyError
      | Some keywords \<Rightarrow>
          if list_ex (\<lambda>kw. re_search L kw text) keywords
          then (case map_of urgency_level_confidence level of
                  None \<Rightarrow> Inl KeyError
                | Some confidence \<Rightarrow> Inr (level, confidence))
          else urgency_scan L text rest)"

definition classify_urgency :: "lib \<Rightarrow> json \<Rightarrow> py_error + string \<times> real" where
  "classify_urgency L ticket =
     (case py_get ticket ''priority'' (JStr []) of Inl e \<Rightarrow> Inl e | Inr p \<Rightarrow>
      (case p of
         JStr ps \<Rightarrow>
           (let explicit_priority = str_lower L ps in
            if explicit_priority \<in> set urgency_levels then Inr (explicit_priority, 1)
            else
              (case py_get ticket ''subject'' (JStr []) of Inl e \<Rightarrow> Inl e | Inr subj \<Rightarrow>
               (case py_get ticket ''body'' (JStr []) of Inl e \<Rightarrow> Inl e | Inr bod \<Rightarrow>
                 (let text = lowered_text L subj bod in
                  if strip text = [] then Inr (''medium'', 6 / 10)
                  else urgency_scan L text urgency_levels))))
       | _ \<Rightarrow> Inl AttributeError))"

definition classify_sentiment :: "lib \<Rightarrow> json \<Rightarrow> py_error + string \<times> real" where
  "classify_sentiment L ticket =
     (case load_classifier_pipeline L of Inl e \<Rightarrow> Inl e | Inr classifier \<Rightarrow>
      (case py_get ticket ''subject'' (JStr []) of Inl e \<Rightarrow> Inl e | Inr subj \<Rightarrow>
       (case py_get ticket ''body'' (JStr []) of Inl e \<Rightarrow> Inl e | Inr bod \<Rightarrow>
        (case combined_text L subj bod of
           JStr text \<Rightarrow>
             if strip text = [] then Inr (''NEUTRAL'', 1 / 2)
             else
               (let words = split text;
                    text' = (if 400 < length words then join_space (take 400 words) else text)
                in case classifier text' of
                     Inl e \<Rightarrow> Inr (''NEUTRAL'', 1 / 2)
                   | Inr (label, score) \<Rightarrow>
                       if 45 / 100 \<le> score \<and> score \<le> 55 / 100 then Inr (''NEUTRAL'', 1 / 2)
                       else Inr (str_upper L label, score))
         | _ \<Rightarrow> Inl AttributeError))))"

text \<open>The dictionary returned by \<open>get_classification_summary\<close>, as the three pairs
  (label, confidence) for intent, urgency and sentiment.\<close>

definition get_classification_summary ::
  "lib \<Rightarrow> json \<Rightarrow> py_error + (string \<times> real) \<times> (string \<times> real) \<times> (string \<times> real)" where
  "get_classification_summary L ticket =
     (case classify_intent L ticket of Inl e \<Rightarrow> Inl e | Inr i \<Rightarrow>
      (case classify_urgency L ticket of Inl e \<Rightarrow> Inl e | Inr u \<Rightarrow>
       (case classify_sentiment L ticket of Inl e \<Rightarrow> Inl e | Inr s \<Rightarrow> Inr (i, u, s))))"

section \<open>The worker (src/processor/worker.py)\<close>

text \<open>The part of \<^verbatim>\<open>ProcessorConfig\<close> that the worker reads while it handles messages.\<close>

record config =
  raw_bucket :: string
  enriched_bucket :: string

record message =
  Body :: string
  ReceiptHandle :: string

text \<open>
  The state that the worker changes: the objects of the object store by bucket and key,
  the items of the table by partition key and sort key, the receipt handles passed to
  of the messages that \<^verbatim>\<open>delete_message\<close> has deleted, and the two counters of
  \<^verbatim>\<open>self.stats\<close>. Every request to the object store, to the table and to the queue can
  raise: \<open>faults\<close> lists, for the requests to come, whether each one raises (\<open>True\<close>);
  beyond the end of the list requests succeed. A request that raises changes nothing.
\<close>

record worker_state =
  s3_objects :: "string \<times> string \<rightharpoonup> string"
  table_items :: "string \<times> int \<rightharpoonup> dynamodb_ticket"
  acked :: "string list"
  faults :: "bool list"
  tickets_processed :: nat
  tickets_failed :: nat

definition next_request :: "worker_state \<Rightarrow> bool \<times> worker_state" where
  "next_request w =
     (case faults w of [] \<Rightarrow> (False, w) | f # fs \<Rightarrow> (f, w\<lparr>faults := fs\<rparr>))"

text \<open>\<^verbatim>\<open>s3.get_object(Bucket=bucket, Key=key)\<close> and the decoding of the body. The client
  rejects arguments that are not strings before it sends anything; a missing object is
  an error of the service.\<close>

definition get_object :: "json \<Rightarrow> json \<Rightarrow> worker_state \<Rightarrow> (py_error + string) \<times> worker_state" where
  "get_object bucket key w =
     (case (bucket, key) of
        (JStr b, JStr k) \<Rightarrow>
          (let (failed, w') = next_request w in
           if failed then (Inl ClientError, w')
           else (case s3_objects w' (b, k) of
                   None \<Rightarrow> (Inl ClientError, w')
                 | Some text \<Rightarrow> (Inr text, w')))
      | _ \<Rightarrow> (Inl ParamValidationError, w))"

definition fetch_ticket_from_s3 ::
  "lib \<Rightarrow> json \<Rightarrow> json \<Rightarrow> worker_state \<Rightarrow> (py_error + json) \<times> worker_state" where
  "fetch_ticket_from_s3 L bucket key w =
     (case get_object bucket key w of
        (Inl e, w') \<Rightarrow> (Inl e, w')
      | (Inr ticket_json, w') \<Rightarrow>
          (case json_loads L ticket_json of
             None \<Rightarrow> (Inl JSONDecodeError, w')
           | Some ticket \<Rightarrow>
               (case py_get ticket ''ticket_id'' (JStr ''unknown'') of
                  Inl e \<Rightarrow> (Inl e, w')
                | Inr logged \<Rightarrow> (Inr ticket, w'))))"

definition process_ticket :: "lib \<Rightarrow> json \<Rightarrow> py_error + enriched_ticket" where
  "process_ticket L raw =
     (case raw of
        JObj kvs \<Rightarrow>
          (case RawTicket L kvs of Inl e \<Rightarrow> Inl e | Inr ticket \<Rightarrow>
           (case generate_ticket_embedding L raw of Inl e \<Rightarrow> Inl e | Inr emb \<Rightarrow>
            (case get_classification_summary L raw of Inl e \<Rightarrow> Inl e
             | Inr ((i, ic), (u, uc), (s, sc)) \<Rightarrow>
              (case generate_summary L raw of Inl e \<Rightarrow> Inl e | Inr sm \<Rightarrow>
               (case EnrichmentData emb i ic u uc s sc sm (utcnow_isoformat L) ''1.0.0'' of
                  Inl e \<Rightarrow> Inl e
                | Inr enr \<Rightarrow> Inr (from_raw ticket enr))))))
      | _ \<Rightarrow> Inl AttributeError)"

text \<open>\<open>store_results\<close>: \<^verbatim>\<open>table.put_item\<close> first, \<^verbatim>\<open>s3.put_object\<close> second, as the source
  has them; the first request that raises ends the function.\<close>

definition put_item :: "dynamodb_ticket \<Rightarrow> worker_state \<Rightarrow> (py_error + unit) \<times> worker_state" where
  "put_item item w =
     (let (failed, w') = next_request w in
      if failed then (Inl ClientError, w')
      else (Inr (),
            w'\<lparr>table_items := (table_items w')((item_ticket_id item, item_created_at item) \<mapsto> item)\<rparr>))"

definition put_object :: "string \<Rightarrow> string \<Rightarrow> string \<Rightarrow> worker_state \<Rightarrow> (py_error + unit) \<times> worker_state" where
  "put_object bucket key text w =
     (let (failed, w') = next_request w in
      if failed then (Inl ClientError, w')
      else (Inr (), w'\<lparr>s3_objects := (s3_objects w')((bucket, key) \<mapsto> text)\<rparr>))"

definition store_results ::
  "config \<Rightarrow> lib \<Rightarrow> enriched_ticket \<Rightarrow> worker_state \<Rightarrow> (py_error + unit) \<times> worker_state" where
  "store_results cfg L enriched w =
     (case put_item (from_enriched enriched) w of
        (Inl e, w') \<Rightarrow> (Inl e, w')
      | (Inr u, w') \<Rightarrow>
          put_object (enriched_bucket cfg) (ticket_id enriched @ ''.json'')
            (model_dump_json L enriched) w')"

text \<open>The reference that one record of a message names (lines 240 to 246): the bucket
  and key of an S3 event, or the configured raw bucket and the member \<^verbatim>\<open>key\<close>, else
  \<^verbatim>\<open>Key\<close>, else \<^verbatim>\<open>None\<close>.\<close>

definition record_reference :: "config \<Rightarrow> json \<Rightarrow> py_error + json \<times> json" where
  "record_reference cfg rec =
     (case py_contains ''s3'' rec of Inl e \<Rightarrow> Inl e | Inr has_s3 \<Rightarrow>
        if has_s3 then
          (case py_getitem rec ''s3'' of Inl e \<Rightarrow> Inl e | Inr s3 \<Rightarrow>
           (case py_getitem s3 ''bucket'' of Inl e \<Rightarrow> Inl e | Inr b \<Rightarrow>
            (case py_getitem b ''name'' of Inl e \<Rightarrow> Inl e | Inr bucket \<Rightarrow>
             (case py_getitem s3 ''object'' of Inl e \<Rightarrow> Inl e | Inr ob \<Rightarrow>
              (case py_getitem ob ''key'' of Inl e \<Rightarrow> Inl e | Inr key \<Rightarrow>
                 Inr (bucket, key))))))
        else
          (case py_get rec ''Key'' JNull of Inl e \<Rightarrow> Inl e | Inr d \<Rightarrow>
           (case py_get rec ''key'' d of Inl e \<Rightarrow> Inl e | Inr key \<Rightarrow>
              Inr (JStr (raw_bucket cfg), key))))"

text \<open>Lines 248 to 253: fetch, process, store, count.\<close>

definition process_unit ::
  "config \<Rightarrow> lib \<Rightarrow> json \<Rightarrow> json \<Rightarrow> worker_state \<Rightarrow> (py_error + unit) \<times> worker_state" where
  "process_unit cfg L bucket key w =
     (case fetch_ticket_from_s3 L bucket key w of
        (Inl e, w1) \<Rightarrow> (Inl e, w1)
      | (Inr raw, w1) \<Rightarrow>
          (case process_ticket L raw of
             Inl e \<Rightarrow> (Inl e, w1)
           | Inr enriched \<Rightarrow>
               (case store_results cfg L enriched w1 of
                  (Inl e, w2) \<Rightarrow> (Inl e, w2)
                | (Inr u, w2) \<Rightarrow>
                    (Inr (), w2\<lparr>tickets_processed := tickets_processed w2 + 1\<rparr>))))"

definition process_record ::
  "config \<Rightarrow> lib \<Rightarrow> json \<Rightarrow> worker_state \<Rightarrow> (py_error + unit) \<times> worker_state" where
  "process_record cfg L rec w =
     (case record_reference cfg rec of
        Inl e \<Rightarrow> (Inl e, w)
      | Inr (bucket, key) \<Rightarrow> process_unit cfg L bucket key w)"

text \<open>The loop over the records of one message: an exception leaves the loop.\<close>

fun process_records ::
  "config \<Rightarrow> lib \<Rightarrow> json list \<Rightarrow> worker_state \<Rightarrow> (py_error + unit) \<times> worker_state" where
  "process_records cfg L [] w = (Inr (), w)"
| "process_records cfg L (rec # recs) w =
     (case process_record cfg L rec w of
        (Inl e, w') \<Rightarrow> (Inl e, w')
      | (Inr u, w') \<Rightarrow> process_records cfg L recs w')"

text \<open>The records of a message (lines 234 to 238): the decoded body, the test
  \<^verbatim>\<open>"Records" in body\<close>, and the sequence that \<^verbatim>\<open>body["Records"]\<close> iterates over; no
  record when the body has no \<^verbatim>\<open>Records\<close>.\<close>

definition message_records :: "lib \<Rightarrow> message \<Rightarrow> py_error + json list" where
  "message_records L m =
     (case json_loads L (Body m) of
        None \<Rightarrow> Inl JSONDecodeError
      | Some b \<Rightarrow>
          (case py_contains ''Records'' b of Inl e \<Rightarrow> Inl e | Inr has_records \<Rightarrow>
             if has_records then
               (case py_getitem b ''Records'' of Inl e \<Rightarrow> Inl e | Inr rs \<Rightarrow> py_iter rs)
             else Inr []))"

text \<open>The \<^verbatim>\<open>try\<close> block of the loop over the messages, up to the deletion (lines 234 to
  253): the records of the body are processed in turn.\<close>

definition try_message ::
  "config \<Rightarrow> lib \<Rightarrow> message \<Rightarrow> worker_state \<Rightarrow> (py_error + unit) \<times> worker_state" where
  "try_message cfg L m w =
     (case message_records L m of
        Inl e \<Rightarrow> (Inl e, w)
      | Inr recs \<Rightarrow> process_records cfg L recs w)"

text \<open>\<^verbatim>\<open>sqs.delete_message(QueueUrl=..., ReceiptHandle=...)\<close>, the last statement of the
  \<^verbatim>\<open>try\<close> block (lines 256 to 259).\<close>

definition delete_message :: "string \<Rightarrow> worker_state \<Rightarrow> (py_error + unit) \<times> worker_state" where
  "delete_message handle w =
     (let (failed, w') = next_request w in
      if failed then (Inl ClientError, w')
      else (Inr (), w'\<lparr>acked := acked w' @ [handle]\<rparr>))"

text \<open>The body of the loop over the messages (lines 232 to 265): the \<^verbatim>\<open>try\<close> block with
  the deletion at its end, and the handler, which counts a failure for every exception
  of the block, that of the deletion too.\<close>

definition handle_message :: "config \<Rightarrow> lib \<Rightarrow> message \<Rightarrow> worker_state \<Rightarrow> worker_state" where
  "handle_message cfg L m w =
     (case try_message cfg L m w of
        (Inl e, w') \<Rightarrow> w'\<lparr>tickets_failed := tickets_failed w' + 1\<rparr>
      | (Inr u, w') \<Rightarrow>
          (case delete_message (ReceiptHandle m) w' of
             (Inl e, w'') \<Rightarrow> w''\<lparr>tickets_failed := tickets_failed w'' + 1\<rparr>
           | (Inr u', w'') \<Rightarrow> w''))"



section \<open>What a poll cycle did, read off the same steps\<close>


text \<open>A record is unparsable: reading its reference raises, or the bucket name or the
  object key it gives is not a string (\<^verbatim>\<open>None\<close> when the member is missing).\<close>

definition unparsable :: "config \<Rightarrow> json \<Rightarrow> bool" where
  "unparsable cfg rec =
     (case record_reference cfg rec of
        Inl e \<Rightarrow> True
      | Inr (bucket, key) \<Rightarrow> str_field bucket = None \<or> str_field key = None)"

text \<open>The enriched ticket of a record, in a state: the document under the reference of
  the record, fetched, validated and enriched; none when one of these raises.\<close>

definition unit_enriched :: "config \<Rightarrow> lib \<Rightarrow> json \<Rightarrow> worker_state \<Rightarrow> enriched_ticket option" where
  "unit_enriched cfg L rec w =
     (case record_reference cfg rec of
        Inl e \<Rightarrow> None
      | Inr (bucket, key) \<Rightarrow>
          (case fetch_ticket_from_s3 L bucket key w of
             (Inl e, w1) \<Rightarrow> None
           | (Inr raw, w1) \<Rightarrow>
               (case process_ticket L raw of Inl e \<Rightarrow> None | Inr enriched \<Rightarrow> Some enriched)))"

text \<open>The keys under which an enriched ticket is written: that of its projection in the
  table, and that of its blob in the object store.\<close>

definition projection_key :: "enriched_ticket \<Rightarrow> string \<times> int" where
  "projection_key enriched = (ticket_id enriched, created_at enriched)"

definition blob_key :: "config \<Rightarrow> enriched_ticket \<Rightarrow> string \<times> string" where
  "blob_key cfg enriched = (enriched_bucket cfg, ticket_id enriched @ ''.json'')"

text \<open>Every unit of a list of records is stored: each record in turn, from the state
  that the records before it left, is fetched, enriched and stored without an error.\<close>

fun units_stored :: "config \<Rightarrow> lib \<Rightarrow> json list \<Rightarrow> worker_state \<Rightarrow> bool" where
  "units_stored cfg L [] w = True"
| "units_stored cfg L (rec # recs) w =
     (case process_record cfg L rec w of
        (Inl e, w') \<Rightarrow> False
      | (Inr u, w') \<Rightarrow> units_stored cfg L recs w')"

text \<open>The number of units of a list of records that are stored (the records after a
  failing one are not attempted), and the enriched tickets of these units, in the order
  of the records.\<close>

fun stored_units :: "config \<Rightarrow> lib \<Rightarrow> json list \<Rightarrow> worker_state \<Rightarrow> nat" where
  "stored_units cfg L [] w = 0"
| "stored_units cfg L (rec # recs) w =
     (case process_record cfg L rec w of
        (Inl e, w') \<Rightarrow> 0
      | (Inr u, w') \<Rightarrow> Suc (stored_units cfg L recs w'))"

fun stored_tickets :: "config \<Rightarrow> lib \<Rightarrow> json list \<Rightarrow> worker_state \<Rightarrow> enriched_ticket list" where
  "stored_tickets cfg L [] w = []"
| "stored_tickets cfg L (rec # recs) w =
     (case process_record cfg L rec w of
        (Inl e, w') \<Rightarrow> []
      | (Inr u, w') \<Rightarrow>
          (case unit_enriched cfg L rec w of None \<Rightarrow> [] | Some enriched \<Rightarrow> [enriched])
            @ stored_tickets cfg L recs w')"









section \<open>A concrete configuration, library and queue content\<close>

text \<open>The default bucket names of src/common/config.py.\<close>

definition default_config :: config where
  "default_config = \<lparr>raw_bucket = ''tickets-raw'', enriched_bucket = ''tickets-enriched''\<rparr>"

text \<open>The raw document of the example scenario, one without \<^verbatim>\<open>customer_id\<close>, and one
  whose \<^verbatim>\<open>created_at\<close> is the float \<^verbatim>\<open>1700000000.0\<close>.\<close>

definition fields_T1 :: "(string \<times> json) list" where
  "fields_T1 =
     [(''ticket_id'', JStr ''T-1''), (''subject'', JStr ''Cannot login''),
      (''body'', JStr ''...''), (''created_at'', JInt 1700000000),
      (''customer_id'', JStr ''C-1''), (''metadata'', JObj [(''source'', JStr ''email'')])]"

definition fields_no_customer :: "(string \<times> json) list" where
  "fields_no_customer =
     [(''ticket_id'', JStr ''T-2''), (''subject'', JStr ''Cannot login''),
      (''body'', JStr ''...''), (''created_at'', JInt 1700000000),
      (''metadata'', JObj [(''source'', JStr ''email'')])]"

definition fields_float_created :: "(string \<times> json) list" where
  "fields_float_created =
     [(''ticket_id'', JStr ''T-3''), (''subject'', JStr ''Cannot login''),
      (''body'', JStr ''...''), (''created_at'', JFloat 1700000000),
      (''customer_id'', JStr ''C-3''), (''metadata'', JObj [(''source'', JStr ''email'')])]"

definition ticket_T1 :: json where
  "ticket_T1 = JObj fields_T1"

definition ticket_no_customer :: json where
  "ticket_no_customer = JObj fields_no_customer"

definition s3_event_record :: "string \<Rightarrow> string \<Rightarrow> json" where
  "s3_event_record bucket key =
     JObj [(''s3'', JObj [(''bucket'', JObj [(''name'', JStr bucket)]),
                          (''object'', JObj [(''key'', JStr key)])])]"

text \<open>The texts that the example library decodes; every other text is not JSON.\<close>

definition example_documents :: "(string \<times> json) list" where
  "example_documents =
     [(''<T-1>'', ticket_T1),
      (''<T-2>'', ticket_no_customer),
      (''<T-3>'', JObj fields_float_created),
      (''<event T-1>'', JObj [(''Records'', JArr [s3_event_record ''tickets-raw'' ''T-1.json''])]),
      (''<event T-2>'', JObj [(''Records'', JArr [s3_event_record ''tickets-raw'' ''T-2.json''])]),
      (''<manual T-1>'', JObj [(''Records'', JArr [JObj [(''key'', JStr ''T-1.json'')]])]),
      (''<key T-1>'', JObj [(''key'', JStr ''T-1.json'')]),
      (''<event T-1, no bucket>'',
         JObj [(''Records'',
           JArr [s3_event_record ''tickets-raw'' ''T-1.json'',
                 JObj [(''s3'', JObj [(''object'', JObj [(''key'', JStr ''T-1.json'')])])]])])]"

text \<open>The example library reads an integer from a string of decimal digits and from no
  other string, lowers and raises the letters A to Z, and finds a keyword wherever its
  characters occur in the text.\<close>

definition digit_value :: "char \<Rightarrow> nat option" where
  "digit_value c =
     (if 48 \<le> (of_char c :: nat) \<and> (of_char c :: nat) \<le> 57 then Some (of_char c - 48) else None)"

fun decimal_acc :: "nat \<Rightarrow> string \<Rightarrow> nat option" where
  "decimal_acc n [] = Some n"
| "decimal_acc n (c # cs) =
     (case digit_value c of None \<Rightarrow> None | Some d \<Rightarrow> decimal_acc (10 * n + d) cs)"

definition decimal_string :: "string \<Rightarrow> int option" where
  "decimal_string s = (if s = [] then None else map_option int (decimal_acc 0 s))"

definition ascii_lower :: "char \<Rightarrow> char" where
  "ascii_lower c =
     (case map_of (zip ''ABCDEFGHIJKLMNOPQRSTUVWXYZ'' ''abcdefghijklmnopqrstuvwxyz'') c of
        None \<Rightarrow> c | Some l \<Rightarrow> l)"

definition ascii_upper :: "char \<Rightarrow> char" where
  "ascii_upper c =
     (case map_of (zip ''abcdefghijklmnopqrstuvwxyz'' ''ABCDEFGHIJKLMNOPQRSTUVWXYZ'') c of
        None \<Rightarrow> c | Some u \<Rightarrow> u)"

definition example_lib :: lib where
  "example_lib =
     \<lparr>json_loads = map_of example_documents,
      int_of_str = decimal_string,
      py_str = (\<lambda>v. ''?''),
      str_lower = map ascii_lower,
      str_upper = map ascii_upper,
      re_search = (\<lambda>kw text. is_substring kw text),
      re_count = (\<lambda>kw text. if is_substring kw text then 1 else 0),
      load_embedding_model = Inr (\<lambda>text. Inr (replicate 384 (1 / 2))),
      load_classifier_pipeline = Inr (\<lambda>text. Inr (''NEGATIVE'', 9 / 10)),
      generate_summary = (\<lambda>ticket. Inr ''Customer cannot log in.''),
      utcnow_isoformat = ''2024-01-15T10:30:00'',
      model_dump_json = (\<lambda>enriched. ''<enriched '' @ ticket_id enriched @ ''>'')\<rparr>"

text \<open>A worker that has counted nothing, facing a raw bucket that holds the three
  documents; \<open>fs\<close> is the fault schedule.\<close>

definition example_state :: "bool list \<Rightarrow> worker_state" where
  "example_state fs =
     \<lparr>s3_objects = [(''tickets-raw'', ''T-1.json'') \<mapsto> ''<T-1>'',
                    (''tickets-raw'', ''T-2.json'') \<mapsto> ''<T-2>'',
                    (''tickets-raw'', ''T-3.json'') \<mapsto> ''<T-3>''],
      table_items = Map.empty,
      acked = [],
      faults = fs,
      tickets_processed = 0,
      tickets_failed = 0\<rparr>"

definition example_enrichment :: enrichment_data where
  "example_enrichment =
     \<lparr>embedding = replicate 384 (1 / 2), intent = ''login_issue'', intent_confidence = 1 / 3,
      urgency = ''high'', urgency_confidence = 8 / 10, sentiment = ''NEGATIVE'',
      sentiment_confidence = 9 / 10, summary = ''Customer cannot log in.'',
      processed_at = ''2024-01-15T10:30:00'', model_version = ''1.0.0''\<rparr>"

definition example_raw :: raw_ticket where
  "example_raw =
     \<lparr>ticket_id = ''T-1'', subject = ''Cannot login'', body = ''...'', priority = None,
      created_at = 1700000000, customer_id = ''C-1'',
      metadata = \<lparr>source = ''email'', language = ''en'', tags = []\<rparr>\<rparr>"

section \<open>Embedding of an empty text\<close>

lemma strip_empty_iff: "(strip s = []) = list_all isspace s"
proof
  assume e: "strip s = []"
  show "list_all isspace s"
  proof (rule ccontr)
    assume "\<not> list_all isspace s"
    then have ne: "dropWhile isspace s \<noteq> []" by (simp add: list_all_iff)
    then have h: "\<not> isspace (hd (dropWhile isspace s))" by (rule hd_dropWhile)
    from e have "dropWhile isspace (rev (dropWhile isspace s)) = []" by (simp add: strip_def)
    then have "\<forall>x \<in> set (dropWhile isspace s). isspace x" by simp
    with ne h show False by (metis hd_in_set)
  qed
next
  assume "list_all isspace s"
  then show "strip s = []" by (auto simp: strip_def list_all_iff dest: set_dropWhileD)
qed

lemma combined_text_strings:
  "combined_text L (JStr s) (JStr b) =
     JStr (if s \<noteq> [] \<and> b \<noteq> [] then s @ ''. '' @ b else if s \<noteq> [] then s else b)"
  by (simp add: combined_text_def)

lemma dot_not_space: "\<not> isspace CHR ''.''"
  by (simp add: isspace_def)

text \<open>
  C10, as amended. With the model loaded, \<open>generate_ticket_embedding\<close> returns 384 zeros,
  whatever the model would answer, when one of subject and body is the empty string (or
  absent) and the other is empty or consists of whitespace. In every other case the model
  is applied and its answer returned: to \<^verbatim>\<open>"<subject>. <body>"\<close> when both are non-empty,
  also when both consist of whitespace, and to the one that is not empty otherwise.
\<close>

theorem embedding_zero_vector:
  assumes "py_get ticket ''subject'' (JStr []) = Inr (JStr s)"
    and "py_get ticket ''body'' (JStr []) = Inr (JStr b)"
  shows "((s = [] \<and> list_all isspace b) \<or> (b = [] \<and> list_all isspace s) \<longrightarrow>
            generate_ticket_embedding (L\<lparr>load_embedding_model := Inr model\<rparr>) ticket
              = Inr (replicate 384 0))
       \<and> (s \<noteq> [] \<and> b \<noteq> [] \<longrightarrow>
            generate_ticket_embedding (L\<lparr>load_embedding_model := Inr model\<rparr>) ticket
              = model (s @ ''. '' @ b))
       \<and> (s = [] \<and> \<not> list_all isspace b \<longrightarrow>
            generate_ticket_embedding (L\<lparr>load_embedding_model := Inr model\<rparr>) ticket = model b)
       \<and> (b = [] \<and> \<not> list_all isspace s \<longrightarrow>
            generate_ticket_embedding (L\<lparr>load_embedding_model := Inr model\<rparr>) ticket = model s)"
  using assms
  by (auto simp: generate_ticket_embedding_def combined_text_strings dot_not_space
      strip_empty_iff)

theorem embedding_zero_vector_witness:
  "generate_ticket_embedding (example_lib\<lparr>load_embedding_model := Inr (\<lambda>text. Inl ModelError)\<rparr>)
     (JObj [(''subject'', JStr []), (''body'', JStr ''  '')])
     = Inr (replicate 384 0)
   \<and> generate_ticket_embedding (example_lib\<lparr>load_embedding_model := Inr (\<lambda>text. Inl ModelError)\<rparr>)
     (JObj [(''subject'', JStr ''a''), (''body'', JStr ''b'')])
     = Inl ModelError
   \<and> generate_ticket_embedding (example_lib\<lparr>load_embedding_model := Inr (\<lambda>text. Inl ModelError)\<rparr>)
     (JObj [(''body'', JStr ''b'')])
     = Inl ModelError"
  using embedding_zero_vector [where ticket = "JObj [(''subject'', JStr []), (''body'', JStr ''  '')]"
      and s = "[]" and b = "''  ''" and L = example_lib and model = "\<lambda>text. Inl ModelError"]
    embedding_zero_vector [where ticket = "JObj [(''subject'', JStr ''a''), (''body'', JStr ''b'')]"
      and s = "''a''" and b = "''b''" and L = example_lib and model = "\<lambda>text. Inl ModelError"]
    embedding_zero_vector [where ticket = "JObj [(''body'', JStr ''b'')]"
      and s = "[]" and b = "''b''" and L = example_lib and model = "\<lambda>text. Inl ModelError"]
  by (simp add: isspace_def)

text \<open>
  C10 as stated fails: with a subject and a body of one space each, the text is
  \<^verbatim>\<open>" .  "\<close>, which \<^verbatim>\<open>strip\<close> does not empty, and the model is applied: the result is
  the answer of the model, here not the zero vector, and an error when the model raises.
\<close>

theorem embedding_whitespace_counterexample:
  "list_all isspace '' '' \<and>
   generate_ticket_embedding example_lib
     (JObj [(''subject'', JStr '' ''), (''body'', JStr '' '')]) = Inr (replicate 384 (1 / 2)) \<and>
   Inr (replicate 384 (1 / 2)) \<noteq> (Inr (replicate 384 0) :: py_error + real list) \<and>
   generate_ticket_embedding (example_lib\<lparr>load_embedding_model := Inr (\<lambda>text. Inl ModelError)\<rparr>)
     (JObj [(''subject'', JStr '' ''), (''body'', JStr '' '')]) = Inl ModelError"
  by (simp add: generate_ticket_embedding_def combined_text_def strip_def isspace_def example_lib_def)

section \<open>The state through the requests\<close>

lemma next_request_cases:
  "(faults w = [] \<and> next_request w = (False, w)) \<or>
   (\<exists>f fs. faults w = f # fs \<and> next_request w = (f, w\<lparr>faults := fs\<rparr>))"
  by (cases "faults w") (simp_all add: next_request_def)

lemma put_item_cases:
  assumes "put_item item w = (r, w')"
  shows "(r = Inl ClientError \<and> s3_objects w' = s3_objects w \<and> table_items w' = table_items w
           \<and> acked w' = acked w \<and> tickets_processed w' = tickets_processed w
           \<and> tickets_failed w' = tickets_failed w \<and> (\<exists>fs. faults w = True # fs \<and> faults w' = fs))
       \<or> (r = Inr () \<and> s3_objects w' = s3_objects w
           \<and> table_items w' = (table_items w)((item_ticket_id item, item_created_at item) \<mapsto> item)
           \<and> acked w' = acked w \<and> tickets_processed w' = tickets_processed w
           \<and> tickets_failed w' = tickets_failed w
           \<and> (faults w = [] \<and> faults w' = [] \<or> (\<exists>fs. faults w = False # fs \<and> faults w' = fs)))"
  using assms next_request_cases [of w]
  by (auto simp: put_item_def split: if_splits)

lemma put_object_cases:
  assumes "put_object b k t w = (r, w')"
  shows "(r = Inl ClientError \<and> s3_objects w' = s3_objects w \<and> table_items w' = table_items w
           \<and> acked w' = acked w \<and> tickets_processed w' = tickets_processed w
           \<and> tickets_failed w' = tickets_failed w \<and> (\<exists>fs. faults w = True # fs \<and> faults w' = fs))
       \<or> (r = Inr () \<and> s3_objects w' = (s3_objects w)((b, k) \<mapsto> t)
           \<and> table_items w' = table_items w
           \<and> acked w' = acked w \<and> tickets_processed w' = tickets_processed w
           \<and> tickets_failed w' = tickets_failed w
           \<and> (faults w = [] \<and> faults w' = [] \<or> (\<exists>fs. faults w = False # fs \<and> faults w' = fs)))"
  using assms next_request_cases [of w]
  by (auto simp: put_object_def split: if_splits)


lemma get_object_keeps:
  assumes "get_object b k w = (r, w')"
  shows "s3_objects w' = s3_objects w \<and> table_items w' = table_items w \<and> acked w' = acked w
         \<and> tickets_processed w' = tickets_processed w \<and> tickets_failed w' = tickets_failed w"
  using assms next_request_cases [of w]
  by (auto simp: get_object_def split: json.splits if_splits option.splits)

lemma fetch_keeps:
  assumes "fetch_ticket_from_s3 L b k w = (r, w')"
  shows "s3_objects w' = s3_objects w \<and> table_items w' = table_items w \<and> acked w' = acked w
         \<and> tickets_processed w' = tickets_processed w \<and> tickets_failed w' = tickets_failed w"
proof -
  obtain r0 w0 where g: "get_object b k w = (r0, w0)" by (cases "get_object b k w")
  from assms g have "w' = w0"
    by (auto simp: fetch_ticket_from_s3_def split: sum.splits option.splits)
  with get_object_keeps [OF g] show ?thesis by simp
qed

lemma fetch_is_dict:
  assumes "fetch_ticket_from_s3 L b k w = (Inr raw, w')"
  shows "\<exists>kvs. raw = JObj kvs"
  using assms
  by (cases "get_object b k w"; cases raw)
     (auto simp: fetch_ticket_from_s3_def split: sum.splits option.splits)

section \<open>Order and keys of the two writes\<close>

lemma from_enriched_key [simp]:
  "item_ticket_id (from_enriched e) = ticket_id e"
  "item_created_at (from_enriched e) = created_at e"
  "item_s3_key (from_enriched e) = ticket_id e @ ''.json''"
  by (simp_all add: from_enriched_def)

lemma from_raw_key [simp]:
  "ticket_id (from_raw raw enr) = ticket_id raw"
  "created_at (from_raw raw enr) = created_at raw"
  "enrichment (from_raw raw enr) = enr"
  by (simp_all add: from_raw_def)

text \<open>The three ways in which store_results ends.\<close>

lemma store_results_cases:
  assumes "store_results cfg L e w = (r, w')"
  shows "(r = Inl ClientError \<and> table_items w' = table_items w \<and> s3_objects w' = s3_objects w)
       \<or> (r = Inl ClientError
           \<and> table_items w' = (table_items w)((ticket_id e, created_at e) \<mapsto> from_enriched e)
           \<and> s3_objects w' = s3_objects w)
       \<or> (r = Inr ()
           \<and> table_items w' = (table_items w)((ticket_id e, created_at e) \<mapsto> from_enriched e)
           \<and> s3_objects w' = (s3_objects w)((enriched_bucket cfg, ticket_id e @ ''.json'')
                 \<mapsto> model_dump_json L e))"
proof -
  obtain r1 w1 where p: "put_item (from_enriched e) w = (r1, w1)"
    by (cases "put_item (from_enriched e) w")
  show ?thesis
  proof (cases r1)
    case (Inl err)
    with assms p have "r = r1 \<and> w' = w1" by (simp add: store_results_def)
    with put_item_cases [OF p] Inl show ?thesis by auto
  next
    case (Inr u)
    with assms p have q: "put_object (enriched_bucket cfg) (ticket_id e @ ''.json'')
        (model_dump_json L e) w1 = (r, w')" by (simp add: store_results_def)
    from put_item_cases [OF p] Inr put_object_cases [OF q] show ?thesis by auto
  qed
qed

lemma store_results_keeps:
  assumes "store_results cfg L e w = (r, w')"
  shows "acked w' = acked w \<and> tickets_processed w' = tickets_processed w
         \<and> tickets_failed w' = tickets_failed w"
proof -
  obtain r1 w1 where p: "put_item (from_enriched e) w = (r1, w1)"
    by (cases "put_item (from_enriched e) w")
  show ?thesis
  proof (cases r1)
    case (Inl err)
    with assms p have "r = r1 \<and> w' = w1" by (simp add: store_results_def)
    with put_item_cases [OF p] Inl show ?thesis by auto
  next
    case (Inr u)
    with assms p have q: "put_object (enriched_bucket cfg) (ticket_id e @ ''.json'')
        (model_dump_json L e) w1 = (r, w')" by (simp add: store_results_def)
    from put_item_cases [OF p] Inr put_object_cases [OF q] show ?thesis by auto
  qed
qed

text \<open>
  C1, as amended. In \<open>store_results\<close> the write of the projection to the table precedes
  the write of the blob to the object store. Hence the object store changes only when the
  projection of the ticket is in the table, and when the first request succeeds and the
  second raises, the function raises with the projection present and the object store
  unchanged.
\<close>

theorem store_results_projection_first:
  assumes "store_results cfg L e w = (r, w')"
  shows "(s3_objects w' \<noteq> s3_objects w \<longrightarrow>
            table_items w' (ticket_id e, created_at e) = Some (from_enriched e))
       \<and> (faults w = False # True # fs \<longrightarrow>
            r = Inl ClientError
            \<and> table_items w' (ticket_id e, created_at e) = Some (from_enriched e)
            \<and> s3_objects w' = s3_objects w)"
proof
  from store_results_cases [OF assms]
  show "s3_objects w' \<noteq> s3_objects w \<longrightarrow>
            table_items w' (ticket_id e, created_at e) = Some (from_enriched e)" by auto
next
  show "faults w = False # True # fs \<longrightarrow>
            r = Inl ClientError
            \<and> table_items w' (ticket_id e, created_at e) = Some (from_enriched e)
            \<and> s3_objects w' = s3_objects w"
    using assms
    by (auto simp: store_results_def put_item_def put_object_def next_request_def)
qed

theorem store_results_projection_first_witness:
  "fst (store_results default_config example_lib (from_raw example_raw example_enrichment)
          (example_state [False, True])) = Inl ClientError
   \<and> table_items (snd (store_results default_config example_lib
          (from_raw example_raw example_enrichment) (example_state [False, True])))
        (''T-1'', 1700000000) = Some (from_enriched (from_raw example_raw example_enrichment))
   \<and> s3_objects (snd (store_results default_config example_lib
          (from_raw example_raw example_enrichment) (example_state [False, True])))
       = s3_objects (example_state [False, True])"
  using store_results_projection_first [where cfg = default_config and L = example_lib
      and e = "from_raw example_raw example_enrichment" and w = "example_state [False, True]"
      and fs = "[]", OF prod.collapse [symmetric]]
  by (simp add: example_state_def example_raw_def)

text \<open>
  C1 as stated fails: a failure between the two writes leaves the projection of T-1 in
  the table and no blob under \<^verbatim>\<open>T-1.json\<close>.
\<close>

theorem store_results_order_counterexample:
  "fst (store_results default_config example_lib (from_raw example_raw example_enrichment)
          (example_state [False, True])) = Inl ClientError
   \<and> table_items (snd (store_results default_config example_lib
          (from_raw example_raw example_enrichment) (example_state [False, True])))
        (''T-1'', 1700000000) \<noteq> None
   \<and> s3_objects (snd (store_results default_config example_lib
          (from_raw example_raw example_enrichment) (example_state [False, True])))
        (''tickets-enriched'', ''T-1.json'') = None"
  by (simp add: store_results_def put_item_def put_object_def next_request_def
      example_state_def default_config_def from_raw_def from_enriched_def example_raw_def)


text \<open>
  C8. The keys are functions of the raw ticket alone: the item has the key
  \<open>(ticket_id, created_at)\<close> and the attribute \<open>s3_key = ticket_id @ ''.json''\<close>, which is
  the key of the blob. Storing two enrichments of the same raw ticket one after the
  other (other clock, other model answers) writes the same two keys: the second result
  replaces the first, and neither store gains a key.
\<close>

theorem storage_keys_deterministic:
  assumes "store_results cfg L1 (from_raw raw enr1) w = (Inr (), w1)"
    and "store_results cfg L2 (from_raw raw enr2) w1 = (Inr (), w2)"
  shows "item_ticket_id (from_enriched (from_raw raw enr1)) = ticket_id raw
       \<and> item_created_at (from_enriched (from_raw raw enr1)) = created_at raw
       \<and> item_s3_key (from_enriched (from_raw raw enr1)) = ticket_id raw @ ''.json''
       \<and> table_items w1 = (table_items w)((ticket_id raw, created_at raw)
             \<mapsto> from_enriched (from_raw raw enr1))
       \<and> s3_objects w1 = (s3_objects w)((enriched_bucket cfg, ticket_id raw @ ''.json'')
             \<mapsto> model_dump_json L1 (from_raw raw enr1))
       \<and> table_items w2 = (table_items w1)((ticket_id raw, created_at raw)
             \<mapsto> from_enriched (from_raw raw enr2))
       \<and> s3_objects w2 = (s3_objects w1)((enriched_bucket cfg, ticket_id raw @ ''.json'')
             \<mapsto> model_dump_json L2 (from_raw raw enr2))
       \<and> dom (table_items w2) = dom (table_items w1)
       \<and> dom (s3_objects w2) = dom (s3_objects w1)"
proof -
  from store_results_cases [OF assms(1)]
  have a: "table_items w1 = (table_items w)((ticket_id raw, created_at raw)
             \<mapsto> from_enriched (from_raw raw enr1))"
    and b: "s3_objects w1 = (s3_objects w)((enriched_bucket cfg, ticket_id raw @ ''.json'')
             \<mapsto> model_dump_json L1 (from_raw raw enr1))" by auto
  from store_results_cases [OF assms(2)]
  have c: "table_items w2 = (table_items w1)((ticket_id raw, created_at raw)
             \<mapsto> from_enriched (from_raw raw enr2))"
    and d: "s3_objects w2 = (s3_objects w1)((enriched_bucket cfg, ticket_id raw @ ''.json'')
             \<mapsto> model_dump_json L2 (from_raw raw enr2))" by auto
  have e: "dom (table_items w2) = dom (table_items w1)" unfolding c unfolding a by auto
  have f: "dom (s3_objects w2) = dom (s3_objects w1)" unfolding d unfolding b by auto
  from a b c d e f show ?thesis by simp
qed

theorem storage_keys_deterministic_witness:
  "dom (table_items (snd (store_results default_config example_lib
          (from_raw example_raw (example_enrichment\<lparr>processed_at := ''2024-01-15T10:35:00''\<rparr>))
          (snd (store_results default_config example_lib
             (from_raw example_raw example_enrichment) (example_state [])))))) = {(''T-1'', 1700000000)}
   \<and> dom (s3_objects (snd (store_results default_config example_lib
          (from_raw example_raw (example_enrichment\<lparr>processed_at := ''2024-01-15T10:35:00''\<rparr>))
          (snd (store_results default_config example_lib
             (from_raw example_raw example_enrichment) (example_state []))))))
       = dom (s3_objects (example_state [])) \<union> {(''tickets-enriched'', ''T-1.json'')}"
proof -
  let ?e1 = "from_raw example_raw example_enrichment"
  let ?e2 = "from_raw example_raw (example_enrichment\<lparr>processed_at := ''2024-01-15T10:35:00''\<rparr>)"
  let ?r1 = "store_results default_config example_lib ?e1 (example_state [])"
  let ?r2 = "store_results default_config example_lib ?e2 (snd ?r1)"
  have f1: "fst ?r1 = Inr ()"
    by (simp add: store_results_def put_item_def put_object_def next_request_def example_state_def)
  have f2: "fst ?r2 = Inr ()"
    by (simp add: store_results_def put_item_def put_object_def next_request_def example_state_def)
  have a1: "?r1 = (Inr (), snd ?r1)" using f1 by (metis prod.collapse)
  have a2: "?r2 = (Inr (), snd ?r2)" using f2 by (metis prod.collapse)
  from storage_keys_deterministic [OF a1 a2]
  show ?thesis
    by (auto simp: example_state_def example_raw_def default_config_def)
qed

section \<open>Bounds of an enrichment result\<close>

lemma urgency_scan_label:
  "urgency_scan L text levels = Inr (u, c) \<Longrightarrow> set levels \<subseteq> set urgency_levels
     \<Longrightarrow> u \<in> set urgency_levels \<and> 0 \<le> c \<and> c \<le> 1"
proof (induction levels)
  case Nil
  then show ?case by (auto simp: urgency_levels_def)
next
  case (Cons level rest)
  then show ?case
    by (auto simp: urgency_level_confidence_def split: option.splits if_splits)
qed

lemma classify_urgency_label:
  assumes "classify_urgency L ticket = Inr (u, c)"
  shows "u \<in> set urgency_levels \<and> 0 \<le> c \<and> c \<le> 1"
proof -
  from assms obtain ps where p: "py_get ticket ''priority'' (JStr []) = Inr (JStr ps)"
    by (auto simp: classify_urgency_def split: sum.splits json.splits)
  show ?thesis
  proof (cases "str_lower L ps \<in> set urgency_levels")
    case True
    with assms p show ?thesis by (simp add: classify_urgency_def)
  next
    case False
    with assms p obtain tx where
      "Inr (''medium'', 6 / 10) = Inr (u, c) \<or> urgency_scan L tx urgency_levels = Inr (u, c)"
      by (auto simp: classify_urgency_def Let_def split: sum.splits if_splits)
    then show ?thesis
    proof
      assume "Inr (''medium'', 6 / 10) = Inr (u, c)"
      then show ?thesis by (auto simp: urgency_levels_def)
    next
      assume "urgency_scan L tx urgency_levels = Inr (u, c)"
      from urgency_scan_label [OF this] show ?thesis by simp
    qed
  qed
qed

lemma classify_intent_confidence:
  assumes "classify_intent L ticket = Inr (i, c)"
  shows "0 \<le> c \<and> c \<le> 1"
  using assms
  by (auto simp: classify_intent_def Let_def split: sum.splits list.splits if_splits)

text \<open>
  C9. Every enriched ticket that \<open>process_ticket\<close> returns has its three confidences
  in \<open>[0, 1]\<close> and an urgency among critical, high, medium and low. The urgency and
  the intent classifiers by themselves return nothing else: a label among the four, and
  confidences in \<open>[0, 1]\<close>.
\<close>

theorem enrichment_bounds:
  assumes "process_ticket L raw = Inr e"
  shows "0 \<le> intent_confidence (enrichment e) \<and> intent_confidence (enrichment e) \<le> 1
       \<and> 0 \<le> urgency_confidence (enrichment e) \<and> urgency_confidence (enrichment e) \<le> 1
       \<and> 0 \<le> sentiment_confidence (enrichment e) \<and> sentiment_confidence (enrichment e) \<le> 1
       \<and> urgency (enrichment e) \<in> {''critical'', ''high'', ''medium'', ''low''}
       \<and> (classify_urgency L ticket' = Inr (u', c') \<longrightarrow>
            u' \<in> {''critical'', ''high'', ''medium'', ''low''} \<and> 0 \<le> c' \<and> c' \<le> 1)
       \<and> (classify_intent L ticket' = Inr (i', d') \<longrightarrow> 0 \<le> d' \<and> d' \<le> 1)"
proof -
  have cu: "classify_urgency L ticket' = Inr (u', c') \<longrightarrow>
            u' \<in> {''critical'', ''high'', ''medium'', ''low''} \<and> 0 \<le> c' \<and> c' \<le> 1"
    using classify_urgency_label [of L ticket' u' c'] by (simp add: urgency_levels_def)
  have ci: "classify_intent L ticket' = Inr (i', d') \<longrightarrow> 0 \<le> d' \<and> d' \<le> 1"
    using classify_intent_confidence [of L ticket' i' d'] by simp
  from assms obtain kvs ticket emb i ic u uc s sc sm enr where
      c: "get_classification_summary L raw = Inr ((i, ic), (u, uc), (s, sc))"
    and v: "EnrichmentData emb i ic u uc s sc sm (utcnow_isoformat L) ''1.0.0'' = Inr enr"
    and e: "e = from_raw ticket enr"
    by (auto simp: process_ticket_def split: json.splits sum.splits prod.splits)
  from c have "classify_urgency L raw = Inr (u, uc)"
    by (auto simp: get_classification_summary_def split: sum.splits)
  from classify_urgency_label [OF this]
  have u: "u \<in> {''critical'', ''high'', ''medium'', ''low''}" by (simp add: urgency_levels_def)
  from v have "enr = \<lparr>embedding = emb, intent = i, intent_confidence = ic, urgency = u,
                urgency_confidence = uc, sentiment = s, sentiment_confidence = sc,
                summary = sm, processed_at = utcnow_isoformat L, model_version = ''1.0.0''\<rparr>
       \<and> 0 \<le> ic \<and> ic \<le> 1 \<and> 0 \<le> uc \<and> uc \<le> 1 \<and> 0 \<le> sc \<and> sc \<le> 1"
    by (auto simp: EnrichmentData_def split: if_splits)
  with u e cu ci show ?thesis by simp
qed


lemma example_lib_fields:
  "generate_summary example_lib = (\<lambda>ticket. Inr ''Customer cannot log in.'')"
  "utcnow_isoformat example_lib = ''2024-01-15T10:30:00''"
  "model_dump_json example_lib = (\<lambda>enriched. ''<enriched '' @ ticket_id enriched @ ''>'')"
  "json_loads example_lib = map_of example_documents"
  "re_search example_lib = is_substring"
  "re_count example_lib = (\<lambda>kw text. if is_substring kw text then 1 else 0)"
  "str_upper example_lib = map ascii_upper"
  "str_lower example_lib = map ascii_lower"
  "load_classifier_pipeline example_lib = Inr (\<lambda>text. Inr (''NEGATIVE'', 9 / 10))"
  "int_of_str example_lib = decimal_string"
  by (simp_all add: example_lib_def)

lemma lowered_T1:
  "lowered_text example_lib (JStr ''Cannot login'') (JStr ''...'') = ''cannot login ...''"
  by (simp add: lowered_text_def example_lib_def ascii_lower_def)

text \<open>The example library on a document with the subject and the body of the example
  scenario and no priority.\<close>

lemma example_enrichment_of:
  assumes "map_of kvs ''subject'' = Some (JStr ''Cannot login'')"
    and "map_of kvs ''body'' = Some (JStr ''...'')"
    and "map_of kvs ''priority'' = None"
  shows "generate_ticket_embedding example_lib (JObj kvs) = Inr (replicate 384 (1 / 2))"
    and "classify_urgency example_lib (JObj kvs) = Inr (''high'', 8 / 10)"
    and "classify_intent example_lib (JObj kvs) = Inr (''login_issue'', 1 / 3)"
    and "classify_sentiment example_lib (JObj kvs) = Inr (''NEGATIVE'', 9 / 10)"
proof -
  show "generate_ticket_embedding example_lib (JObj kvs) = Inr (replicate 384 (1 / 2))"
    using assms
    by (simp add: generate_ticket_embedding_def combined_text_def strip_def isspace_def
        example_lib_def)
  show "classify_urgency example_lib (JObj kvs) = Inr (''high'', 8 / 10)"
    using assms
    by (simp add: classify_urgency_def lowered_T1 Let_def strip_def isspace_def
        example_lib_fields urgency_levels_def URGENCY_KEYWORDS_def urgency_level_confidence_def
        ascii_lower_def)
  show "classify_intent example_lib (JObj kvs) = Inr (''login_issue'', 1 / 3)"
    using assms
    by (simp add: classify_intent_def lowered_T1 Let_def strip_def isspace_def
        example_lib_fields intent_scores_def INTENT_KEYWORDS_def)
  show "classify_sentiment example_lib (JObj kvs) = Inr (''NEGATIVE'', 9 / 10)"
    using assms
    by (simp add: classify_sentiment_def combined_text_def strip_def isspace_def
        example_lib_fields split_def ascii_upper_def)
qed

lemma process_example:
  assumes "map_of kvs ''subject'' = Some (JStr ''Cannot login'')"
    and "map_of kvs ''body'' = Some (JStr ''...'')"
    and "map_of kvs ''priority'' = None"
    and "RawTicket example_lib kvs = Inr raw"
  shows "process_ticket example_lib (JObj kvs) = Inr (from_raw raw example_enrichment)"
  by (simp add: process_ticket_def assms(4) get_classification_summary_def
      example_enrichment_of [OF assms(1-3)] EnrichmentData_def example_enrichment_def
      example_lib_fields)

lemma fields_T1_text:
  "map_of fields_T1 ''subject'' = Some (JStr ''Cannot login'')"
  "map_of fields_T1 ''body'' = Some (JStr ''...'')"
  "map_of fields_T1 ''priority'' = None"
  by (simp_all add: fields_T1_def)

lemma RawTicket_T1: "RawTicket example_lib fields_T1 = Inr example_raw"
  by (simp add: RawTicket_def required_def with_default_def example_raw_def fields_T1_def)

lemma urgency_T1: "classify_urgency example_lib (JObj fields_T1) = Inr (''high'', 8 / 10)"
  by (rule example_enrichment_of(2) [OF fields_T1_text])

lemma intent_T1: "classify_intent example_lib (JObj fields_T1) = Inr (''login_issue'', 1 / 3)"
  by (rule example_enrichment_of(3) [OF fields_T1_text])

lemma process_T1:
  "process_ticket example_lib ticket_T1 = Inr (from_raw example_raw example_enrichment)"
  unfolding ticket_T1_def by (rule process_example [OF fields_T1_text RawTicket_T1])

theorem enrichment_bounds_witness:
  "0 \<le> intent_confidence example_enrichment \<and> intent_confidence example_enrichment \<le> 1
   \<and> 0 \<le> urgency_confidence example_enrichment \<and> urgency_confidence example_enrichment \<le> 1
   \<and> 0 \<le> sentiment_confidence example_enrichment \<and> sentiment_confidence example_enrichment \<le> 1
   \<and> urgency example_enrichment \<in> {''critical'', ''high'', ''medium'', ''low''}"
  using enrichment_bounds [OF process_T1, of "JObj fields_T1" "''high''" "8 / 10"
      "''login_issue''" "1 / 3"] urgency_T1 intent_T1
  by simp


section \<open>One unit, one record, one message\<close>

lemma process_unit_cases:
  assumes "process_unit cfg L bucket key w = (r, w')"
  shows "acked w' = acked w \<and> tickets_failed w' = tickets_failed w
       \<and> dom (table_items w) \<subseteq> dom (table_items w')
       \<and> dom (s3_objects w) \<subseteq> dom (s3_objects w')
       \<and> ((\<exists>err. r = Inl err) \<and> tickets_processed w' = tickets_processed w
          \<or> r = Inr () \<and> tickets_processed w' = tickets_processed w + 1
            \<and> (\<exists>raw e w1. fetch_ticket_from_s3 L bucket key w = (Inr raw, w1)
                  \<and> process_ticket L raw = Inr e
                  \<and> table_items w' = (table_items w)(projection_key e \<mapsto> from_enriched e)
                  \<and> s3_objects w' = (s3_objects w)(blob_key cfg e \<mapsto> model_dump_json L e)))"
proof -
  obtain r1 w1 where f: "fetch_ticket_from_s3 L bucket key w = (r1, w1)"
    by (cases "fetch_ticket_from_s3 L bucket key w")
  note k1 = fetch_keeps [OF f]
  show ?thesis
  proof (cases r1)
    case (Inl err)
    with assms f have "r = Inl err \<and> w' = w1" by (simp add: process_unit_def)
    with k1 show ?thesis by simp
  next
    case (Inr raw)
    show ?thesis
    proof (cases "process_ticket L raw")
      case (Inl err)
      with assms f Inr have "r = Inl err \<and> w' = w1" by (simp add: process_unit_def)
      with k1 show ?thesis by simp
    next
      case (Inr e)
      obtain r2 w2 where s: "store_results cfg L e w1 = (r2, w2)"
        by (cases "store_results cfg L e w1")
      note k2 = store_results_keeps [OF s]
      note c2 = store_results_cases [OF s]
      from c2 k1 have grow: "dom (table_items w) \<subseteq> dom (table_items w2)
          \<and> dom (s3_objects w) \<subseteq> dom (s3_objects w2)" by auto
      show ?thesis
      proof (cases r2)
        case (Inl err)
        with assms f \<open>r1 = Inr raw\<close> Inr s have "r = Inl err \<and> w' = w2"
          by (simp add: process_unit_def)
        with k1 k2 grow show ?thesis by simp
      next
        case (Inr u)
        with assms f \<open>r1 = Inr raw\<close> \<open>process_ticket L raw = Inr e\<close> s
        have rw: "r = Inr () \<and> w' = w2\<lparr>tickets_processed := tickets_processed w2 + 1\<rparr>"
          by (simp add: process_unit_def)
        from c2 Inr k1
        have st: "table_items w2 = (table_items w)(projection_key e \<mapsto> from_enriched e)
            \<and> s3_objects w2 = (s3_objects w)(blob_key cfg e \<mapsto> model_dump_json L e)"
          by (auto simp: projection_key_def blob_key_def)
        from rw k1 k2 grow st f \<open>r1 = Inr raw\<close> \<open>process_ticket L raw = Inr e\<close>
        show ?thesis by auto
      qed
    qed
  qed
qed

lemma process_record_cases:
  assumes "process_record cfg L rec w = (r, w')"
  shows "acked w' = acked w \<and> tickets_failed w' = tickets_failed w
       \<and> dom (table_items w) \<subseteq> dom (table_items w')
       \<and> dom (s3_objects w) \<subseteq> dom (s3_objects w')
       \<and> ((\<exists>err. r = Inl err) \<and> tickets_processed w' = tickets_processed w
          \<or> r = Inr () \<and> tickets_processed w' = tickets_processed w + 1
            \<and> (\<exists>e. unit_enriched cfg L rec w = Some e
                  \<and> table_items w' = (table_items w)(projection_key e \<mapsto> from_enriched e)
                  \<and> s3_objects w' = (s3_objects w)(blob_key cfg e \<mapsto> model_dump_json L e)))"
proof (cases "record_reference cfg rec")
  case (Inl err)
  with assms show ?thesis by (auto simp: process_record_def)
next
  case (Inr ref)
  obtain b k where ref: "ref = (b, k)" by (cases ref)
  with assms Inr have u: "process_unit cfg L b k w = (r, w')"
    by (simp add: process_record_def)
  from process_unit_cases [OF u] Inr ref show ?thesis
    by (auto simp: unit_enriched_def)
qed

lemma process_records_result:
  "process_records cfg L recs w = (r, w') \<Longrightarrow>
     acked w' = acked w \<and> tickets_failed w' = tickets_failed w
     \<and> tickets_processed w' = tickets_processed w + stored_units cfg L recs w
     \<and> (r = Inr ()) = units_stored cfg L recs w
     \<and> dom (table_items w) \<subseteq> dom (table_items w')
     \<and> dom (s3_objects w) \<subseteq> dom (s3_objects w')"
proof (induction recs arbitrary: w)
  case Nil
  then show ?case by auto
next
  case (Cons rec recs)
  obtain r1 w1 where p: "process_record cfg L rec w = (r1, w1)"
    by (cases "process_record cfg L rec w")
  note c = process_record_cases [OF p]
  show ?case
  proof (cases r1)
    case (Inl err)
    with Cons.prems p have "r = Inl err \<and> w' = w1" by simp
    with c p Inl show ?thesis by simp
  next
    case (Inr u)
    with Cons.prems p have "process_records cfg L recs w1 = (r, w')" by simp
    note ih = Cons.IH [OF this]
    from c ih have d: "dom (table_items w) \<subseteq> dom (table_items w')
        \<and> dom (s3_objects w) \<subseteq> dom (s3_objects w')" by blast
    from c Inr have c': "acked w1 = acked w \<and> tickets_failed w1 = tickets_failed w
        \<and> tickets_processed w1 = tickets_processed w + 1" by auto
    from ih have ih': "acked w' = acked w1 \<and> tickets_failed w' = tickets_failed w1
        \<and> tickets_processed w' = tickets_processed w1 + stored_units cfg L recs w1
        \<and> (r = Inr ()) = units_stored cfg L recs w1" by simp
    from ih' c' d p Inr show ?thesis by simp
  qed
qed

lemma stored_tickets_written:
  "process_records cfg L recs w = (r, w') \<Longrightarrow>
     (\<forall>e \<in> set (stored_tickets cfg L recs w).
         projection_key e \<in> dom (table_items w') \<and> blob_key cfg e \<in> dom (s3_objects w'))
     \<and> length (stored_tickets cfg L recs w) = stored_units cfg L recs w"
proof (induction recs arbitrary: w)
  case Nil
  then show ?case by simp
next
  case (Cons rec recs)
  obtain r1 w1 where p: "process_record cfg L rec w = (r1, w1)"
    by (cases "process_record cfg L rec w")
  note c = process_record_cases [OF p]
  show ?case
  proof (cases r1)
    case (Inl err)
    with p show ?thesis by simp
  next
    case (Inr u)
    with Cons.prems p have rest: "process_records cfg L recs w1 = (r, w')" by simp
    note g = process_records_result [OF rest]
    from c Inr obtain e where e: "unit_enriched cfg L rec w = Some e"
      and t: "projection_key e \<in> dom (table_items w1)"
      and b: "blob_key cfg e \<in> dom (s3_objects w1)" by auto
    from t b g have "projection_key e \<in> dom (table_items w')
        \<and> blob_key cfg e \<in> dom (s3_objects w')" by blast
    with Cons.IH [OF rest] p Inr e show ?thesis by simp
  qed
qed

lemma process_records_append:
  "process_records cfg L (pre @ rest) w =
     (case process_records cfg L pre w of
        (Inl e, w') \<Rightarrow> (Inl e, w')
      | (Inr u, w') \<Rightarrow> process_records cfg L rest w')"
  by (induction pre arbitrary: w) (auto split: prod.splits sum.splits)





section \<open>Schema validation\<close>




lemma loads_examples:
  "json_loads example_lib ''<T-1>'' = Some (JObj fields_T1)"
  "json_loads example_lib ''<T-2>'' = Some (JObj fields_no_customer)"
  "json_loads example_lib ''<T-3>'' = Some (JObj fields_float_created)"
  "json_loads example_lib ''<event T-1>''
     = Some (JObj [(''Records'', JArr [s3_event_record ''tickets-raw'' ''T-1.json''])])"
  "json_loads example_lib ''<event T-2>''
     = Some (JObj [(''Records'', JArr [s3_event_record ''tickets-raw'' ''T-2.json''])])"
  "json_loads example_lib ''<manual T-1>''
     = Some (JObj [(''Records'', JArr [JObj [(''key'', JStr ''T-1.json'')]])])"
  "json_loads example_lib ''<key T-1>'' = Some (JObj [(''key'', JStr ''T-1.json'')])"
  "json_loads example_lib ''<event T-1, no bucket>''
     = Some (JObj [(''Records'',
           JArr [s3_event_record ''tickets-raw'' ''T-1.json'',
                 JObj [(''s3'', JObj [(''object'', JObj [(''key'', JStr ''T-1.json'')])])]])])"
  "json_loads example_lib ''not json'' = None"
  by (simp_all add: example_lib_def example_documents_def ticket_T1_def ticket_no_customer_def)

lemma example_objects:
  "s3_objects (example_state fs) (''tickets-raw'', ''T-1.json'') = Some ''<T-1>''"
  "s3_objects (example_state fs) (''tickets-raw'', ''T-2.json'') = Some ''<T-2>''"
  "s3_objects (example_state fs) (''tickets-raw'', ''T-3.json'') = Some ''<T-3>''"
  "s3_objects (example_state fs) (''tickets-enriched'', k) = None"
  "table_items (example_state fs) = Map.empty"
  "faults (example_state fs) = fs"
  "acked (example_state fs) = []"
  "tickets_processed (example_state fs) = 0"
  "tickets_failed (example_state fs) = 0"
  by (simp_all add: example_state_def)

lemma fetch_example:
  assumes "faults w = [] \<or> (\<exists>fs. faults w = False # fs)"
    and "s3_objects w (''tickets-raw'', k) = Some text"
    and "json_loads example_lib text = Some (JObj kvs)"
  shows "fetch_ticket_from_s3 example_lib (JStr ''tickets-raw'') (JStr k) w
     = (Inr (JObj kvs), w\<lparr>faults := tl (faults w)\<rparr>)"
  using assms
  by (auto simp: fetch_ticket_from_s3_def get_object_def next_request_def split: option.splits)



text \<open>One unit of the example library, for a document with the subject and the body of
  the example scenario, when the three requests succeed.\<close>

lemma unit_example:
  assumes "faults w = [] \<or> (\<exists>fs. faults w = False # False # False # fs)"
    and "s3_objects w (''tickets-raw'', k) = Some text"
    and "json_loads example_lib text = Some (JObj kvs)"
    and "map_of kvs ''subject'' = Some (JStr ''Cannot login'')"
    and "map_of kvs ''body'' = Some (JStr ''...'')"
    and "map_of kvs ''priority'' = None"
    and "RawTicket example_lib kvs = Inr raw"
  shows "process_unit default_config example_lib (JStr ''tickets-raw'') (JStr k) w
     = (Inr (),
        w\<lparr>faults := drop 3 (faults w),
          table_items := (table_items w)((ticket_id raw, created_at raw)
              \<mapsto> from_enriched (from_raw raw example_enrichment)),
          s3_objects := (s3_objects w)((''tickets-enriched'', ticket_id raw @ ''.json'')
              \<mapsto> ''<enriched '' @ ticket_id raw @ ''>''),
          tickets_processed := Suc (tickets_processed w)\<rparr>)"
proof -
  from assms(1) have f1: "faults w = [] \<or> (\<exists>fs. faults w = False # fs)" by auto
  note f = fetch_example [OF f1 assms(2,3)]
  note p = process_example [OF assms(4-7)]
  let ?w1 = "w\<lparr>faults := tl (faults w)\<rparr>"
  have s: "store_results default_config example_lib (from_raw raw example_enrichment) ?w1
      = (Inr (),
        w\<lparr>faults := drop 3 (faults w),
          table_items := (table_items w)((ticket_id raw, created_at raw)
              \<mapsto> from_enriched (from_raw raw example_enrichment)),
          s3_objects := (s3_objects w)((''tickets-enriched'', ticket_id raw @ ''.json'')
              \<mapsto> ''<enriched '' @ ticket_id raw @ ''>'')\<rparr>)"
    using assms(1)
    by (auto simp: store_results_def put_item_def put_object_def next_request_def
        default_config_def example_lib_fields)
  show ?thesis by (simp add: process_unit_def f p s)
qed




section \<open>The example messages\<close>

lemma record_reference_event:
  "record_reference cfg (s3_event_record b k) = Inr (JStr b, JStr k)"
  by (simp add: record_reference_def s3_event_record_def)

lemma record_reference_direct:
  assumes "map_of kvs ''s3'' = None" and "map_of kvs ''key'' = Some key"
  shows "record_reference cfg (JObj kvs) = Inr (JStr (raw_bucket cfg), key)"
  using assms by (simp add: record_reference_def split: option.splits)

lemma unit_T1:
  assumes "faults w = [] \<or> (\<exists>fs. faults w = False # False # False # fs)"
    and "s3_objects w (''tickets-raw'', ''T-1.json'') = Some ''<T-1>''"
  shows "process_unit default_config example_lib (JStr ''tickets-raw'') (JStr ''T-1.json'') w
     = (Inr (),
        w\<lparr>faults := drop 3 (faults w),
          table_items := (table_items w)((''T-1'', 1700000000)
              \<mapsto> from_enriched (from_raw example_raw example_enrichment)),
          s3_objects := (s3_objects w)((''tickets-enriched'', ''T-1.json'') \<mapsto> ''<enriched T-1>''),
          tickets_processed := Suc (tickets_processed w)\<rparr>)"
  using unit_example [OF assms loads_examples(1) fields_T1_text RawTicket_T1]
  by (simp add: example_raw_def)

lemma records_examples:
  "message_records example_lib \<lparr>Body = ''<event T-1>'', ReceiptHandle = r\<rparr>
     = Inr [s3_event_record ''tickets-raw'' ''T-1.json'']"
  "message_records example_lib \<lparr>Body = ''<manual T-1>'', ReceiptHandle = r\<rparr>
     = Inr [JObj [(''key'', JStr ''T-1.json'')]]"
  "message_records example_lib \<lparr>Body = ''<key T-1>'', ReceiptHandle = r\<rparr> = Inr []"
  "message_records example_lib \<lparr>Body = ''<event T-1, no bucket>'', ReceiptHandle = r\<rparr>
     = Inr ([s3_event_record ''tickets-raw'' ''T-1.json'']
            @ JObj [(''s3'', JObj [(''object'', JObj [(''key'', JStr ''T-1.json'')])])] # [])"
  "message_records example_lib \<lparr>Body = ''not json'', ReceiptHandle = r\<rparr> = Inl JSONDecodeError"
  by (simp_all add: message_records_def loads_examples)

lemma record_T1:
  assumes "faults w = [] \<or> (\<exists>fs. faults w = False # False # False # fs)"
    and "s3_objects w (''tickets-raw'', ''T-1.json'') = Some ''<T-1>''"
  shows "process_record default_config example_lib (s3_event_record ''tickets-raw'' ''T-1.json'') w
     = (Inr (),
        w\<lparr>faults := drop 3 (faults w),
          table_items := (table_items w)((''T-1'', 1700000000)
              \<mapsto> from_enriched (from_raw example_raw example_enrichment)),
          s3_objects := (s3_objects w)((''tickets-enriched'', ''T-1.json'') \<mapsto> ''<enriched T-1>''),
          tickets_processed := Suc (tickets_processed w)\<rparr>)"
  by (simp add: process_record_def record_reference_event unit_T1 [OF assms])

lemma unparsable_no_bucket:
  "unparsable cfg (JObj [(''s3'', JObj [(''object'', JObj [(''key'', JStr ''T-1.json'')])])])"
  by (simp add: unparsable_def record_reference_def)

lemma no_bucket_fails:
  "process_record cfg L (JObj [(''s3'', JObj [(''object'', JObj [(''key'', JStr ''T-1.json'')])])]) w
     = (Inl KeyError, w)"
  by (simp add: process_record_def record_reference_def)

lemma unparsable_fails:
  assumes "unparsable cfg rec"
  shows "\<exists>e. process_record cfg L rec w = (Inl e, w)"
proof (cases "record_reference cfg rec")
  case (Inl err)
  then show ?thesis by (simp add: process_record_def)
next
  case (Inr ref)
  obtain b k where ref: "ref = (b, k)" by (cases ref)
  with assms Inr have "str_field b = None \<or> str_field k = None" by (simp add: unparsable_def)
  then have "get_object b k w = (Inl ParamValidationError, w)"
    by (cases b; cases k) (simp_all add: get_object_def)
  with Inr ref show ?thesis
    by (simp add: process_record_def process_unit_def fetch_ticket_from_s3_def)
qed

lemma stored_units_all:
  "process_records cfg L recs w = (Inr (), w') \<Longrightarrow> stored_units cfg L recs w = length recs"
proof (induction recs arbitrary: w)
  case Nil
  then show ?case by simp
next
  case (Cons rec recs)
  obtain r1 w1 where p: "process_record cfg L rec w = (r1, w1)"
    by (cases "process_record cfg L rec w")
  with Cons.prems have r1: "r1 = Inr ()" and rest: "process_records cfg L recs w1 = (Inr (), w')"
    by (auto split: sum.splits)
  from Cons.IH [OF rest] p r1 show ?case by simp
qed

text \<open>The message of the S3 event for T-1, handled when no request raises and when the
  fourth request, the deletion, raises.\<close>

lemma handle_event_T1:
  assumes "faults w = []"
    and "s3_objects w (''tickets-raw'', ''T-1.json'') = Some ''<T-1>''"
  shows "handle_message default_config example_lib \<lparr>Body = ''<event T-1>'', ReceiptHandle = r\<rparr> w
     = w\<lparr>faults := [],
         table_items := (table_items w)((''T-1'', 1700000000)
              \<mapsto> from_enriched (from_raw example_raw example_enrichment)),
         s3_objects := (s3_objects w)((''tickets-enriched'', ''T-1.json'') \<mapsto> ''<enriched T-1>''),
         tickets_processed := Suc (tickets_processed w),
         acked := acked w @ [r]\<rparr>"
proof -
  from assms(1) have f: "faults w = [] \<or> (\<exists>fs. faults w = False # False # False # fs)" by simp
  show ?thesis
    using assms(1)
    by (simp add: handle_message_def try_message_def records_examples record_T1 [OF f assms(2)]
        delete_message_def next_request_def)
qed






section \<open>Acknowledgement of a message\<close>




section \<open>Direct key references\<close>

text \<open>
  C3, as amended. A record of the \<^verbatim>\<open>Records\<close> list that has no member \<^verbatim>\<open>s3\<close> and has a
  member \<^verbatim>\<open>key\<close> is a direct key reference: its unit has the configured raw bucket and the
  referenced key, and it goes through the same fetch, enrichment and storage as the unit
  of an S3 event record.
\<close>

theorem direct_key_reference:
  assumes "map_of kvs ''s3'' = None" and "map_of kvs ''key'' = Some key"
  shows "record_reference cfg (JObj kvs) = Inr (JStr (raw_bucket cfg), key)
       \<and> process_record cfg L (JObj kvs) w = process_unit cfg L (JStr (raw_bucket cfg)) key w
       \<and> process_record cfg L (s3_event_record b k) w = process_unit cfg L (JStr b) (JStr k) w
       \<and> (json_loads L (Body m) = Some (JObj [(''Records'', JArr [JObj kvs])]) \<longrightarrow>
            try_message cfg L m w = process_unit cfg L (JStr (raw_bucket cfg)) key w)"
proof -
  note r = record_reference_direct [OF assms, of cfg]
  have p: "process_record cfg L (JObj kvs) w = process_unit cfg L (JStr (raw_bucket cfg)) key w"
    by (simp add: process_record_def r)
  have e: "process_record cfg L (s3_event_record b k) w = process_unit cfg L (JStr b) (JStr k) w"
    by (simp add: process_record_def record_reference_event)
  have t: "json_loads L (Body m) = Some (JObj [(''Records'', JArr [JObj kvs])]) \<longrightarrow>
            try_message cfg L m w = process_unit cfg L (JStr (raw_bucket cfg)) key w"
    by (auto simp: try_message_def message_records_def p split: prod.splits sum.splits)
  from r p e t show ?thesis by simp
qed

theorem direct_key_reference_witness:
  "try_message default_config example_lib \<lparr>Body = ''<manual T-1>'', ReceiptHandle = ''r1''\<rparr>
     (example_state [])
   = process_unit default_config example_lib (JStr ''tickets-raw'') (JStr ''T-1.json'')
       (example_state [])
   \<and> fst (process_unit default_config example_lib (JStr ''tickets-raw'') (JStr ''T-1.json'')
       (example_state [])) = Inr ()"
proof -
  have f: "faults (example_state []) = []
      \<or> (\<exists>fs. faults (example_state []) = False # False # False # fs)"
    by (simp add: example_objects)
  from direct_key_reference [where kvs = "[(''key'', JStr ''T-1.json'')]" and key = "JStr ''T-1.json''"
      and cfg = default_config and L = example_lib
      and m = "\<lparr>Body = ''<manual T-1>'', ReceiptHandle = ''r1''\<rparr>" and w = "example_state []"
      and b = "''tickets-raw''" and k = "''T-1.json''"]
  have t: "try_message default_config example_lib \<lparr>Body = ''<manual T-1>'', ReceiptHandle = ''r1''\<rparr>
       (example_state [])
     = process_unit default_config example_lib (JStr (raw_bucket default_config))
         (JStr ''T-1.json'') (example_state [])"
    by (simp add: loads_examples)
  have rb: "raw_bucket default_config = ''tickets-raw''" by (simp add: default_config_def)
  have u: "fst (process_unit default_config example_lib (JStr ''tickets-raw'') (JStr ''T-1.json'')
       (example_state [])) = Inr ()"
    by (simp add: unit_T1 [OF f example_objects(1)])
  from t rb u show ?thesis by simp
qed

text \<open>
  C3 as stated fails: a body \<^verbatim>\<open>{"key": "T-1.json"}\<close> without \<^verbatim>\<open>Records\<close> yields no unit.
  The message is acknowledged, and the document, which is in the raw bucket, is neither
  enriched nor stored.
\<close>

theorem direct_key_body_counterexample:
  "json_loads example_lib ''<key T-1>'' = Some (JObj [(''key'', JStr ''T-1.json'')])
   \<and> s3_objects (example_state []) (''tickets-raw'', ''T-1.json'') = Some ''<T-1>''
   \<and> handle_message default_config example_lib \<lparr>Body = ''<key T-1>'', ReceiptHandle = ''r1''\<rparr>
        (example_state []) = (example_state [])\<lparr>acked := [''r1'']\<rparr>
   \<and> table_items ((example_state [])\<lparr>acked := [''r1'']\<rparr>) (''T-1'', 1700000000) = None
   \<and> s3_objects ((example_state [])\<lparr>acked := [''r1'']\<rparr>) (''tickets-enriched'', ''T-1.json'') = None
   \<and> tickets_processed ((example_state [])\<lparr>acked := [''r1'']\<rparr>) = 0"
  by (simp add: loads_examples handle_message_def try_message_def records_examples
      delete_message_def next_request_def example_objects)

section \<open>An unparsable record\<close>

text \<open>
  C4, as amended. A message whose list of records holds an unparsable record is not
  deleted and counts as one failure. Its records are processed in order and the message
  ends, at the latest, at the first unparsable record: the state after the message is the
  state after the records before that one, with one more failure, so that no record at or
  after it is processed or stored. The units before it are stored one by one until one of
  them fails; when none fails, all of them are stored and counted before the message
  fails.
\<close>

theorem unparsable_record_stops_message:
  assumes "message_records L m = Inr (pre @ bad # post)" and "unparsable cfg bad"
  shows "handle_message cfg L m w
           = (snd (process_records cfg L pre w))
               \<lparr>tickets_failed := tickets_failed (snd (process_records cfg L pre w)) + 1\<rparr>
       \<and> acked (handle_message cfg L m w) = acked w
       \<and> tickets_failed (handle_message cfg L m w) = tickets_failed w + 1
       \<and> tickets_processed (handle_message cfg L m w)
           = tickets_processed w + stored_units cfg L pre w
       \<and> (\<forall>e \<in> set (stored_tickets cfg L pre w).
             projection_key e \<in> dom (table_items (handle_message cfg L m w))
             \<and> blob_key cfg e \<in> dom (s3_objects (handle_message cfg L m w)))
       \<and> length (stored_tickets cfg L pre w) = stored_units cfg L pre w
       \<and> (units_stored cfg L pre w \<longrightarrow> stored_units cfg L pre w = length pre)"
proof -
  obtain r0 w0 where p0: "process_records cfg L pre w = (r0, w0)"
    by (cases "process_records cfg L pre w")
  from unparsable_fails [OF assms(2), of L w0]
  obtain e0 where b0: "process_record cfg L bad w0 = (Inl e0, w0)" by blast
  have "\<exists>e. process_records cfg L (pre @ bad # post) w = (Inl e, w0)"
    using p0 b0 by (cases r0) (auto simp: process_records_append)
  then obtain e where p: "process_records cfg L (pre @ bad # post) w = (Inl e, w0)" by blast
  with assms(1) have h: "handle_message cfg L m w = w0\<lparr>tickets_failed := tickets_failed w0 + 1\<rparr>"
    by (simp add: handle_message_def try_message_def)
  note k = process_records_result [OF p0]
  note t = stored_tickets_written [OF p0]
  have all: "units_stored cfg L pre w \<longrightarrow> stored_units cfg L pre w = length pre"
    using k p0 stored_units_all [of cfg L pre w w0] by auto
  from h p0 k t all show ?thesis by simp
qed

theorem unparsable_record_stops_message_witness:
  "acked (handle_message default_config example_lib
      \<lparr>Body = ''<event T-1, no bucket>'', ReceiptHandle = ''r1''\<rparr> (example_state [])) = []
   \<and> tickets_failed (handle_message default_config example_lib
      \<lparr>Body = ''<event T-1, no bucket>'', ReceiptHandle = ''r1''\<rparr> (example_state [])) = 1
   \<and> tickets_processed (handle_message default_config example_lib
      \<lparr>Body = ''<event T-1, no bucket>'', ReceiptHandle = ''r1''\<rparr> (example_state [])) = 1"
proof -
  have f: "faults (example_state []) = []
      \<or> (\<exists>fs. faults (example_state []) = False # False # False # fs)"
    by (simp add: example_objects)
  have s: "stored_units default_config example_lib [s3_event_record ''tickets-raw'' ''T-1.json'']
      (example_state []) = 1"
    by (simp add: record_T1 [OF f example_objects(1)])
  note t = unparsable_record_stops_message [OF records_examples(4) unparsable_no_bucket,
      of default_config "''r1''" "example_state []"]
  from t have a: "acked (handle_message default_config example_lib
      \<lparr>Body = ''<event T-1, no bucket>'', ReceiptHandle = ''r1''\<rparr> (example_state []))
      = acked (example_state [])" by blast
  from t have b: "tickets_failed (handle_message default_config example_lib
      \<lparr>Body = ''<event T-1, no bucket>'', ReceiptHandle = ''r1''\<rparr> (example_state []))
      = tickets_failed (example_state []) + 1" by blast
  from t have c: "tickets_processed (handle_message default_config example_lib
      \<lparr>Body = ''<event T-1, no bucket>'', ReceiptHandle = ''r1''\<rparr> (example_state []))
      = tickets_processed (example_state [])
          + stored_units default_config example_lib [s3_event_record ''tickets-raw'' ''T-1.json'']
              (example_state [])" by blast
  from a b c s show ?thesis by (simp add: example_objects)
qed

text \<open>
  C4 as stated fails: of two records, the second without a bucket name, the first is
  enriched, stored and counted.
\<close>

theorem unparsable_record_counterexample:
  "unparsable default_config (JObj [(''s3'', JObj [(''object'', JObj [(''key'', JStr ''T-1.json'')])])])
   \<and> message_records example_lib \<lparr>Body = ''<event T-1, no bucket>'', ReceiptHandle = ''r1''\<rparr>
       = Inr [s3_event_record ''tickets-raw'' ''T-1.json'',
              JObj [(''s3'', JObj [(''object'', JObj [(''key'', JStr ''T-1.json'')])])]]
   \<and> s3_objects (handle_message default_config example_lib
        \<lparr>Body = ''<event T-1, no bucket>'', ReceiptHandle = ''r1''\<rparr> (example_state []))
        (''tickets-enriched'', ''T-1.json'') \<noteq> None
   \<and> table_items (handle_message default_config example_lib
        \<lparr>Body = ''<event T-1, no bucket>'', ReceiptHandle = ''r1''\<rparr> (example_state []))
        (''T-1'', 1700000000) \<noteq> None
   \<and> tickets_processed (handle_message default_config example_lib
        \<lparr>Body = ''<event T-1, no bucket>'', ReceiptHandle = ''r1''\<rparr> (example_state [])) = 1
   \<and> acked (handle_message default_config example_lib
        \<lparr>Body = ''<event T-1, no bucket>'', ReceiptHandle = ''r1''\<rparr> (example_state [])) = []"
proof -
  have f: "faults (example_state []) = []
      \<or> (\<exists>fs. faults (example_state []) = False # False # False # fs)"
    by (simp add: example_objects)
  have h: "handle_message default_config example_lib
        \<lparr>Body = ''<event T-1, no bucket>'', ReceiptHandle = ''r1''\<rparr> (example_state [])
      = (example_state [])\<lparr>faults := [],
          table_items := (table_items (example_state []))((''T-1'', 1700000000)
              \<mapsto> from_enriched (from_raw example_raw example_enrichment)),
          s3_objects := (s3_objects (example_state []))
              ((''tickets-enriched'', ''T-1.json'') \<mapsto> ''<enriched T-1>''),
          tickets_processed := Suc 0,
          tickets_failed := Suc 0\<rparr>"
    by (simp add: handle_message_def try_message_def records_examples
        record_T1 [OF f example_objects(1)] no_bucket_fails example_objects)
  show ?thesis
    unfolding h by (simp add: unparsable_no_bucket records_examples example_objects)
qed

section \<open>A batch of messages\<close>













end
